theory Spec2Isabelle
  imports Complex_Main
begin

section \<open>Speech-to-text backend: a shallow embedding of the request handlers\<close>

text \<open>
  The development follows the TypeScript sources: the upload utilities
  (\<^verbatim>\<open>utils/fileUpload.ts\<close>), the provider client (\<^verbatim>\<open>services/deepgramService.ts\<close>),
  the token utilities (\<^verbatim>\<open>utils/jwt.ts\<close>), the validation schemas
  (\<^verbatim>\<open>shared/schema.ts\<close>) and the controllers.  Strings are byte lists, numbers that
  the code treats as integers are \<open>nat\<close>, the provider's floating-point scores are
  \<open>real\<close>, documents are records, the database collections and the disk are finite
  maps, and every handler is a function from the state before the call to the HTTP
  response and the state after it.
\<close>

subsection \<open>String helpers of the JavaScript runtime\<close>

text \<open>
  \<^verbatim>\<open>String.prototype.toLowerCase\<close> on the ASCII range.  No character outside ASCII
  lower-cases to one of the letters that occur in the allow-listed extensions, so on
  byte strings this decides membership in the allow list as the runtime does.
\<close>

definition toLowerChar :: "char \<Rightarrow> char" where
  "toLowerChar c =
     (let n = (of_char c :: nat)
      in if 65 \<le> n \<and> n \<le> 90
         then (case c of Char b0 b1 b2 b3 b4 b5 b6 b7 \<Rightarrow> Char b0 b1 b2 b3 b4 True b6 b7)
         else c)"

definition toLowerCase :: "string \<Rightarrow> string" where
  "toLowerCase s = map toLowerChar s"

text \<open>\<^verbatim>\<open>String.prototype.trim\<close>: white space is removed at both ends.\<close>

definition isSpace :: "char \<Rightarrow> bool" where
  "isSpace c = (of_char c \<in> {9, 10, 11, 12, 13, 32 :: nat})"

definition trim :: "string \<Rightarrow> string" where
  "trim s = rev (dropWhile isSpace (rev (dropWhile isSpace s)))"

text \<open>
  \<^verbatim>\<open>path.extname\<close> of Node.js (POSIX flavour): trailing slashes are dropped, the last
  path component is taken, and the extension runs from its last dot to its end.  The
  result is empty when the component has no dot, when its only dot is its first
  character, and when the component is \<^verbatim>\<open>..\<close>.
\<close>

definition extname :: "string \<Rightarrow> string" where
  "extname p =
     (let b = takeWhile (\<lambda>c. c \<noteq> CHR ''/'') (dropWhile (\<lambda>c. c = CHR ''/'') (rev p));
          e = takeWhile (\<lambda>c. c \<noteq> CHR ''.'') b;
          stem = drop (length e + 1) b
      in if CHR ''.'' \<notin> set b then []
         else if stem = [] then []
         else if stem = ''.'' \<and> e = [] then []
         else CHR ''.'' # rev e)"

subsection \<open>Audio ingest (\<^verbatim>\<open>utils/fileUpload.ts\<close>)\<close>

text \<open>The fields of \<^verbatim>\<open>Express.Multer.File\<close> that the code reads.\<close>

record multer_file =
  originalname :: string
  mimetype :: string
  f_size :: nat
  f_path :: string

text \<open>The result \<^verbatim>\<open>{ valid: boolean; error?: string }\<close>.\<close>

record validation =
  valid :: bool
  error :: "string option"

definition allowedExtensions :: "string list" where
  "allowedExtensions =
     [''.mp3'', ''.wav'', ''.webm'', ''.mp4'', ''.m4a'', ''.aac'', ''.ogg'', ''.opus'', ''.flac'']"

text \<open>\<^verbatim>\<open>allowedExtensions.join(', ')\<close>\<close>

fun join :: "string \<Rightarrow> string list \<Rightarrow> string" where
  "join sep [] = []"
| "join sep [x] = x"
| "join sep (x # y # ys) = x @ sep @ join sep (y # ys)"

text \<open>
  The argument is \<open>None\<close> when the caller passes \<^verbatim>\<open>undefined\<close>; the function has no
  \<^verbatim>\<open>throw\<close> and calls nothing that throws on a file object.
\<close>

definition validateAudioFile :: "multer_file option \<Rightarrow> validation" where
  "validateAudioFile file =
     (case file of
        None \<Rightarrow> \<lparr>valid = False, error = Some ''No file provided''\<rparr>
      | Some f \<Rightarrow>
          if f_size f > 50 * 1024 * 1024
          then \<lparr>valid = False, error = Some ''File size too large. Maximum 50MB allowed.''\<rparr>
          else let fileExt = toLowerCase (extname (originalname f))
               in if fileExt \<notin> set allowedExtensions
                  then \<lparr>valid = False,
                        error = Some (''Unsupported file type. Allowed: '' @ join '', '' allowedExtensions)\<rparr>
                  else \<lparr>valid = True, error = None\<rparr>)"

text \<open>
  \<^verbatim>\<open>getAudioDuration\<close>: \<^verbatim>\<open>Math.max(1, Math.round(sizeInMB * 60))\<close> with
  \<^verbatim>\<open>sizeInMB = stats.size / (1024 * 1024)\<close>, and 0 when \<^verbatim>\<open>fs.statSync\<close> throws.
  The disk maps a path to the bytes stored there.  \<^verbatim>\<open>Math.round\<close> rounds halves up,
  and the quotient by a power of two is exact, so the rounding is integer arithmetic.
\<close>

type_synonym bytes = "nat list"
type_synonym disk = "string \<rightharpoonup> bytes"

definition getAudioDuration :: "disk \<Rightarrow> string \<Rightarrow> nat" where
  "getAudioDuration fs filePath =
     (case fs filePath of
        None \<Rightarrow> 0
      | Some content \<Rightarrow> max 1 ((length content * 60 * 2 + 1024 * 1024) div (2 * (1024 * 1024))))"

text \<open>
  \<^verbatim>\<open>cleanupFile\<close>: unlink the file when it exists; every error is caught and logged.
\<close>

definition cleanupFile :: "disk \<Rightarrow> string \<Rightarrow> disk" where
  "cleanupFile fs filePath = (if fs filePath \<noteq> None then fs(filePath := None) else fs)"

subsection \<open>Transcription documents (\<^verbatim>\<open>models/Transcription.ts\<close>)\<close>

datatype status = Processing | Completed | Failed

datatype source = Upload | Recording

text \<open>The three metadata paths the schema declares; strict mode drops any other.\<close>

record metadata =
  deepgramRequestId :: "string option"
  modelInfo :: "string option"
  processingTime :: "real option"

text \<open>
  A document of the collection.  \<open>doc_id\<close> is \<^verbatim>\<open>_id\<close>; \<open>audioData\<close> stands for the
  base64 text by the bytes it encodes (the encoding of a byte string is empty exactly
  when the byte string is); \<open>createdAt\<close> and \<open>updatedAt\<close> are the paths added by
  \<^verbatim>\<open>timestamps: true\<close>, in milliseconds.
\<close>

record transcription_doc =
  doc_id :: nat
  userId :: nat
  username :: string
  email :: string
  title :: string
  originalFilename :: string
  fileUrl :: string
  audioData :: bytes
  mimeType :: string
  fileSize :: nat
  duration :: real
  transcription :: string
  confidence :: real
  language :: string
  status :: status
  source :: source
  metadata :: "metadata option"
  createdAt :: nat
  updatedAt :: nat

text \<open>
  Validation that \<^verbatim>\<open>save()\<close> runs before it writes: a \<^verbatim>\<open>required\<close> string path
  rejects the empty string, \<open>title\<close> has \<^verbatim>\<open>maxlength: 200\<close>, \<open>confidence\<close> has
  \<^verbatim>\<open>min: 0\<close> and \<^verbatim>\<open>max: 1\<close>.  The two enum paths and the numeric required paths
  hold by the types of the record.
\<close>

definition validateSync :: "transcription_doc \<Rightarrow> bool" where
  "validateSync d =
     (username d \<noteq> [] \<and> email d \<noteq> [] \<and> title d \<noteq> [] \<and> length (title d) \<le> 200 \<and>
      originalFilename d \<noteq> [] \<and> fileUrl d \<noteq> [] \<and> audioData d \<noteq> [] \<and> mimeType d \<noteq> [] \<and>
      0 \<le> confidence d \<and> confidence d \<le> 1)"

subsection \<open>Provider client (\<^verbatim>\<open>DeepgramService\<close>)\<close>

text \<open>
  What \<^verbatim>\<open>deepgram.listen.prerecorded.transcribeFile\<close> can give back: it throws, or
  it resolves to \<^verbatim>\<open>{ result, error }\<close>.  Every level of the result that the code
  reaches through \<^verbatim>\<open>?.\<close> is optional.
\<close>

record dg_alternative =
  transcript :: "string option"
  alt_confidence :: "real option"

record dg_channel =
  alternatives :: "dg_alternative list option"

record dg_results =
  channels :: "dg_channel list option"

record dg_metadata =
  md_duration :: "real option"
  request_id :: "string option"
  model_info :: "string option"
  processing_total_time :: "real option"
  detected_language :: "string option"
  md_channels :: "nat option"

record dg_result =
  results :: "dg_results option"
  dg_meta :: "dg_metadata option"

datatype dg_response = Threw string | Returned "dg_result option" "string option"

text \<open>The remote call: the audio bytes and the \<^verbatim>\<open>mimetype\<close> option, when one is passed.\<close>

type_synonym remote = "bytes \<Rightarrow> string option \<Rightarrow> dg_response"

record result_metadata =
  rm_deepgramRequestId :: "string option"
  rm_modelInfo :: "string option"
  rm_processingTime :: real
  rm_language :: "string option"
  rm_channels :: "nat option"

text \<open>The value the two transcribe methods resolve to.\<close>

record transcribe_result =
  r_transcription :: string
  r_confidence :: real
  r_duration :: real
  r_metadata :: result_metadata

text \<open>\<^verbatim>\<open>result?.results?.channels?.[0]?.alternatives?.[0]\<close>\<close>

definition first_alternative :: "dg_result option \<Rightarrow> dg_alternative option" where
  "first_alternative result =
     (case result of None \<Rightarrow> None
      | Some r \<Rightarrow> (case results r of None \<Rightarrow> None
        | Some rs \<Rightarrow> (case channels rs of None \<Rightarrow> None
          | Some [] \<Rightarrow> None
          | Some (ch # _) \<Rightarrow> (case alternatives ch of None \<Rightarrow> None
            | Some [] \<Rightarrow> None
            | Some (a # _) \<Rightarrow> Some a))))"

text \<open>\<^verbatim>\<open>x || 0\<close> on an optional number and \<^verbatim>\<open>x || ""\<close> on an optional string.\<close>

definition or_zero :: "real option \<Rightarrow> real" where
  "or_zero x = (case x of None \<Rightarrow> 0 | Some v \<Rightarrow> v)"

definition or_empty :: "string option \<Rightarrow> string" where
  "or_empty x = (case x of None \<Rightarrow> [] | Some v \<Rightarrow> v)"

text \<open>
  The body shared by \<^verbatim>\<open>transcribeFile\<close> and \<^verbatim>\<open>transcribeBuffer\<close> from the remote
  call on.  \<open>Inl\<close> is the error thrown inside the \<^verbatim>\<open>try\<close> block.
\<close>

definition extract_result :: "dg_response \<Rightarrow> string + transcribe_result" where
  "extract_result resp =
     (case resp of
        Threw msg \<Rightarrow> Inl msg
      | Returned result err \<Rightarrow>
          (case err of
             Some msg \<Rightarrow> Inl (''Deepgram API error: '' @ msg)
           | None \<Rightarrow>
               (case first_alternative result of
                  None \<Rightarrow> Inl ''No transcription results returned from Deepgram''
                | Some alternative \<Rightarrow>
                    let md = Option.bind result dg_meta
                    in Inr \<lparr>r_transcription = or_empty (transcript alternative),
                            r_confidence = or_zero (alt_confidence alternative),
                            r_duration = or_zero (Option.bind md md_duration),
                            r_metadata =
                              \<lparr>rm_deepgramRequestId = Option.bind md request_id,
                               rm_modelInfo = Option.bind md model_info,
                               rm_processingTime = or_zero (Option.bind md processing_total_time),
                               rm_language = Option.bind md detected_language,
                               rm_channels = Option.bind md md_channels\<rparr>\<rparr>)))"

text \<open>The \<^verbatim>\<open>catch\<close> block of both methods rethrows with a prefix.\<close>

definition rethrow :: "string + transcribe_result \<Rightarrow> string + transcribe_result" where
  "rethrow r = (case r of Inl msg \<Rightarrow> Inl (''Transcription failed: '' @ msg) | Inr v \<Rightarrow> Inr v)"

definition transcribeFile :: "remote \<Rightarrow> disk \<Rightarrow> string \<Rightarrow> string + transcribe_result" where
  "transcribeFile dg fs filePath =
     rethrow (case fs filePath of
                None \<Rightarrow> Inl ''ENOENT: no such file or directory''
              | Some audioBuffer \<Rightarrow> extract_result (dg audioBuffer None))"

definition transcribeBuffer :: "remote \<Rightarrow> bytes \<Rightarrow> string \<Rightarrow> string + transcribe_result" where
  "transcribeBuffer dg audioBuffer mime = rethrow (extract_result (dg audioBuffer (Some mime)))"

text \<open>
  The exported \<^verbatim>\<open>deepgramService\<close> object builds the client on first use; the
  constructor throws when \<^verbatim>\<open>DEEPGRAM_API_KEY\<close> is unset or empty.  Its methods are
  \<^verbatim>\<open>async\<close>, so the exception rejects the promise they return.
\<close>

definition getInstance :: "string option \<Rightarrow> string + unit" where
  "getInstance apiKey =
     (case apiKey of
        None \<Rightarrow> Inl ''DEEPGRAM_API_KEY is not set in environment variables''
      | Some k \<Rightarrow> if k = [] then Inl ''DEEPGRAM_API_KEY is not set in environment variables''
                  else Inr ())"

definition deepgramService_transcribeFile ::
  "string option \<Rightarrow> remote \<Rightarrow> disk \<Rightarrow> string \<Rightarrow> string + transcribe_result" where
  "deepgramService_transcribeFile apiKey dg fs filePath =
     (case getInstance apiKey of Inl e \<Rightarrow> Inl e | Inr _ \<Rightarrow> transcribeFile dg fs filePath)"

definition deepgramService_transcribeBuffer ::
  "string option \<Rightarrow> remote \<Rightarrow> bytes \<Rightarrow> string \<Rightarrow> string + transcribe_result" where
  "deepgramService_transcribeBuffer apiKey dg buffer mime =
     (case getInstance apiKey of Inl e \<Rightarrow> Inl e | Inr _ \<Rightarrow> transcribeBuffer dg buffer mime)"

subsection \<open>Users\<close>

text \<open>
  A symbolic \<^verbatim>\<open>bcrypt\<close>: a hash records the cost and the password it was computed
  from, and \<^verbatim>\<open>bcrypt.compare\<close> accepts exactly that password.
\<close>

datatype pwhash = Bcrypt nat string

definition bcrypt_hash :: "string \<Rightarrow> nat \<Rightarrow> pwhash" where
  "bcrypt_hash pw saltRounds = Bcrypt saltRounds pw"

definition bcrypt_compare :: "string \<Rightarrow> pwhash \<Rightarrow> bool" where
  "bcrypt_compare pw h = (case h of Bcrypt _ q \<Rightarrow> pw = q)"

text \<open>
  Modelled from the spec: the user document of the absent user model (identity, unique
  username and email, password hash, active flag, failed-login counter, lock-until
  timestamp, token-epoch counter, time of the last successful login), under the path
  names the controllers read and write.  Times are in milliseconds.
\<close>

record user =
  user_id :: nat
  user_username :: string
  user_email :: string
  password :: pwhash
  tokenVersion :: nat
  isActive :: bool
  loginAttempts :: nat
  lockUntil :: "nat option"
  lastLoginAt :: "nat option"
  user_createdAt :: nat

text \<open>\<^verbatim>\<open>UserModel.findById\<close> and \<^verbatim>\<open>UserModel.findOne({ email })\<close>.\<close>

definition findById :: "user list \<Rightarrow> nat \<Rightarrow> user option" where
  "findById us uid = find (\<lambda>u. user_id u = uid) us"

definition findOneByEmail :: "user list \<Rightarrow> string \<Rightarrow> user option" where
  "findOneByEmail us e = find (\<lambda>u. user_email u = e) us"

text \<open>Writing one user document back, keyed by its id.\<close>

definition saveUser :: "user list \<Rightarrow> user \<Rightarrow> user list" where
  "saveUser us u = map (\<lambda>x. if user_id x = user_id u then u else x) us"

text \<open>
  Modelled from the spec: the configured failed-login threshold and the length of the
  cooldown window, which the absent user model reads from its configuration.  The
  values are the ones of the repository's sample environment (5 attempts, 2 hours, in
  milliseconds).
\<close>

definition MAX_LOGIN_ATTEMPTS :: nat where
  "MAX_LOGIN_ATTEMPTS = 5"

definition LOCK_TIME :: nat where
  "LOCK_TIME = 2 * 60 * 60 * 1000"

text \<open>
  Modelled from the spec: the virtual \<^verbatim>\<open>isLocked\<close> of the absent user model.  An
  account is locked while its lock-until timestamp lies in the future.
\<close>

definition isLocked :: "nat \<Rightarrow> user \<Rightarrow> bool" where
  "isLocked now u = (case lockUntil u of None \<Rightarrow> False | Some t \<Rightarrow> now < t)"

text \<open>
  Modelled from the spec: the method \<^verbatim>\<open>incLoginAttempts\<close> of the absent user model.
  It counts one more consecutive failure and locks the account for the cooldown window
  once the threshold is reached.
\<close>

definition incLoginAttempts :: "nat \<Rightarrow> user \<Rightarrow> user" where
  "incLoginAttempts now u =
     (let n = loginAttempts u + 1
      in u\<lparr>loginAttempts := n,
           lockUntil := (if MAX_LOGIN_ATTEMPTS \<le> n then Some (now + LOCK_TIME) else lockUntil u)\<rparr>)"

text \<open>
  Modelled from the spec: the method \<^verbatim>\<open>resetLoginAttempts\<close> of the absent user
  model.  A successful login clears the failure counter and the lock and records the
  time of the login.
\<close>

definition resetLoginAttempts :: "nat \<Rightarrow> user \<Rightarrow> user" where
  "resetLoginAttempts now u = u\<lparr>loginAttempts := 0, lockUntil := None, lastLoginAt := Some now\<rparr>"

text \<open>
  Modelled from the spec: the method \<^verbatim>\<open>incrementTokenVersion\<close> of the absent user
  model.  It increments the token-epoch counter of the account.
\<close>

definition incrementTokenVersion :: "user \<Rightarrow> user" where
  "incrementTokenVersion u = u\<lparr>tokenVersion := tokenVersion u + 1\<rparr>"

subsection \<open>Tokens (\<^verbatim>\<open>utils/jwt.ts\<close>)\<close>

record JWTPayload =
  p_userId :: nat
  p_email :: string
  p_username :: string
  p_tokenVersion :: "nat option"

record RefreshTokenPayload =
  rp_userId :: nat
  rp_tokenVersion :: nat

text \<open>
  A symbolic \<^verbatim>\<open>jsonwebtoken\<close>: a signed token is its payload, the registered claims
  \<^verbatim>\<open>iat\<close>, \<^verbatim>\<open>exp\<close>, \<^verbatim>\<open>iss\<close>, \<^verbatim>\<open>aud\<close> (times in seconds) and the secret that signed it.
  \<^verbatim>\<open>jwt.sign\<close> with \<^verbatim>\<open>expiresIn\<close> sets \<^verbatim>\<open>exp = iat + expiresIn\<close>; \<^verbatim>\<open>jwt.verify\<close>
  accepts a token signed with the given secret, with the expected issuer and audience,
  whose \<^verbatim>\<open>exp\<close>, if any, is later than the clock; \<^verbatim>\<open>jwt.decode\<close> reads the claims
  without checking anything.
\<close>

record 'p jwt =
  claims :: 'p
  iat :: nat
  exp :: "nat option"
  iss :: string
  aud :: string
  signed_with :: string

definition jwt_sign :: "'p \<Rightarrow> string \<Rightarrow> nat \<Rightarrow> string \<Rightarrow> string \<Rightarrow> nat \<Rightarrow> 'p jwt" where
  "jwt_sign payload secret expiresIn issuer audience clock =
     \<lparr>claims = payload, iat = clock, exp = Some (clock + expiresIn), iss = issuer,
      aud = audience, signed_with = secret\<rparr>"

definition jwt_verify :: "'p jwt \<Rightarrow> string \<Rightarrow> string \<Rightarrow> string \<Rightarrow> nat \<Rightarrow> 'p option" where
  "jwt_verify t secret issuer audience clock =
     (if signed_with t = secret \<and> iss t = issuer \<and> aud t = audience \<and>
         (case exp t of None \<Rightarrow> True | Some e \<Rightarrow> clock < e)
      then Some (claims t) else None)"

text \<open>\<^verbatim>\<open>Math.floor(Date.now() / 1000)\<close>, the clock of the token library.\<close>

definition seconds :: "nat \<Rightarrow> nat" where
  "seconds now = now div 1000"

definition generateAccessToken :: "string \<Rightarrow> nat \<Rightarrow> JWTPayload \<Rightarrow> JWTPayload jwt" where
  "generateAccessToken JWT_SECRET now payload =
     jwt_sign payload JWT_SECRET (15 * 60) ''speech-to-text-app'' ''speech-to-text-users'' (seconds now)"

definition generateRefreshToken ::
  "string \<Rightarrow> nat \<Rightarrow> RefreshTokenPayload \<Rightarrow> RefreshTokenPayload jwt" where
  "generateRefreshToken JWT_REFRESH_SECRET now payload =
     jwt_sign payload JWT_REFRESH_SECRET (7 * 24 * 60 * 60) ''speech-to-text-app''
       ''speech-to-text-users'' (seconds now)"

text \<open>
  A word of the \<^verbatim>\<open>Authorization\<close> header after \<^verbatim>\<open>split(" ")\<close>: a signed access token,
  or any other text, which \<^verbatim>\<open>jwt.decode\<close> maps to \<^verbatim>\<open>null\<close> and \<^verbatim>\<open>jwt.verify\<close>
  rejects.
\<close>

datatype hword = Plain string | Token "JWTPayload jwt"

definition verifyAccessToken :: "string \<Rightarrow> nat \<Rightarrow> hword \<Rightarrow> JWTPayload option" where
  "verifyAccessToken JWT_SECRET now token =
     (case token of
        Plain _ \<Rightarrow> None
      | Token t \<Rightarrow> jwt_verify t JWT_SECRET ''speech-to-text-app'' ''speech-to-text-users'' (seconds now))"

definition isTokenExpired :: "nat \<Rightarrow> hword \<Rightarrow> bool" where
  "isTokenExpired now token =
     (case token of
        Plain _ \<Rightarrow> True
      | Token t \<Rightarrow>
          (case exp t of
             None \<Rightarrow> True
           | Some e \<Rightarrow> if e = 0 then True else e < seconds now))"

subsection \<open>HTTP responses\<close>

text \<open>
  The JSON bodies the handlers send, one constructor per shape, and the response with
  its status code.
\<close>

datatype payload =
    Message string
  | MessageCode string string
  | Failure string
  | ValidationFailed
  | UploadAccepted nat string status string nat real nat
  | TranscriptionJson transcription_doc
  | UpdatedJson string transcription_doc
  | LoginJson "JWTPayload jwt" "RefreshTokenPayload jwt" nat string string nat
  | TextAttachment string string
  | JsonAttachment string transcription_doc
  | AccountDeleted nat nat

record response =
  statusCode :: nat
  json :: payload

definition respond :: "nat \<Rightarrow> payload \<Rightarrow> response" where
  "respond c b = \<lparr>statusCode = c, json = b\<rparr>"

subsection \<open>The authentication middleware\<close>

text \<open>
  The middleware either answers the request itself or stores the decoded payload in
  \<^verbatim>\<open>req.user\<close> and calls \<^verbatim>\<open>next()\<close>.  The header is given as its words;
  \<^verbatim>\<open>authHeader.split(" ")[1]\<close> is \<^verbatim>\<open>undefined\<close> when there is no second word, and
  \<^verbatim>\<open>!token\<close> also holds for the empty string.
\<close>

datatype auth = Respond response | Next JWTPayload

definition bearer :: "hword list option \<Rightarrow> hword option" where
  "bearer authHeader =
     (case authHeader of
        None \<Rightarrow> None
      | Some ws \<Rightarrow> if 1 < length ws then Some (ws ! 1) else None)"

definition authenticateToken :: "string \<Rightarrow> nat \<Rightarrow> hword list option \<Rightarrow> auth" where
  "authenticateToken JWT_SECRET now authHeader =
     (case bearer authHeader of
        None \<Rightarrow> Respond (respond 401 (MessageCode ''Access token required'' ''TOKEN_MISSING''))
      | Some token \<Rightarrow>
          if token = Plain [] then
            Respond (respond 401 (MessageCode ''Access token required'' ''TOKEN_MISSING''))
          else if isTokenExpired now token then
            Respond (respond 401 (MessageCode ''Token has expired'' ''TOKEN_EXPIRED''))
          else
            (case verifyAccessToken JWT_SECRET now token of
               None \<Rightarrow> Respond (respond 403 (MessageCode ''Invalid or malformed token'' ''TOKEN_INVALID''))
             | Some decoded \<Rightarrow> Next decoded))"

subsection \<open>Validation schemas (\<^verbatim>\<open>shared/schema.ts\<close>)\<close>

text \<open>
  A parsed request body maps a key to a JSON value.  Every schema field is a string,
  so the other values are told apart by truthiness alone: \<open>JFalsy\<close> stands for
  \<^verbatim>\<open>null\<close>, \<^verbatim>\<open>false\<close> and \<^verbatim>\<open>0\<close>, \<open>JOther\<close> for every other value that is not a
  string.  \<open>safeParse\<close> gives \<open>None\<close> when validation fails and the parsed data
  otherwise; keys the schema does not declare are stripped.
\<close>

datatype jsval = JString string | JFalsy | JOther

type_synonym jsbody = "string \<rightharpoonup> jsval"

definition isAlpha :: "char \<Rightarrow> bool" where
  "isAlpha c = (let n = (of_char c :: nat) in (65 \<le> n \<and> n \<le> 90) \<or> (97 \<le> n \<and> n \<le> 122))"

definition isAlnum :: "char \<Rightarrow> bool" where
  "isAlnum c = (let n = (of_char c :: nat) in isAlpha c \<or> (48 \<le> n \<and> n \<le> 57))"

text \<open>
  The pattern \<^verbatim>\<open>/^[a-zA-Z0-9._%+-]+@[a-zA-Z0-9.-]+\.[a-zA-Z]{2,}$/\<close>: neither
  character class contains \<^verbatim>\<open>@\<close>, so the local part ends at the first \<^verbatim>\<open>@\<close>; the
  last class contains no dot, so it matches what follows the last dot.
\<close>

definition email_regex :: "string \<Rightarrow> bool" where
  "email_regex s =
     (let local = takeWhile (\<lambda>c. c \<noteq> CHR ''@'') s;
          rest = drop (length local) s
      in case rest of
           [] \<Rightarrow> False
         | _ # domain \<Rightarrow>
             let tld = rev (takeWhile (\<lambda>c. c \<noteq> CHR ''.'') (rev domain));
                 d = take (length domain - length tld - 1) domain
             in local \<noteq> [] \<and> list_all (\<lambda>c. isAlnum c \<or> c \<in> set ''._%+-'') local \<and>
                length tld < length domain \<and> d \<noteq> [] \<and>
                list_all (\<lambda>c. isAlnum c \<or> c \<in> set ''.-'') d \<and>
                2 \<le> length tld \<and> list_all isAlpha tld)"

text \<open>
  \<open>emailSchema\<close>; the first argument is the library's own \<^verbatim>\<open>.email()\<close> check, which
  is not part of the repository.
\<close>

definition emailSchema :: "(string \<Rightarrow> bool) \<Rightarrow> jsval \<Rightarrow> string option" where
  "emailSchema zod_email v =
     (case v of
        JOther \<Rightarrow> None
      | JFalsy \<Rightarrow> None
      | JString s \<Rightarrow>
          if zod_email s \<and> email_regex s \<and> 5 \<le> length s \<and> length s \<le> 254
          then Some (toLowerCase s) else None)"

definition loginUserSchema :: "(string \<Rightarrow> bool) \<Rightarrow> jsbody \<Rightarrow> (string \<times> string) option" where
  "loginUserSchema zod_email body =
     (case body ''email'' of
        None \<Rightarrow> None
      | Some v \<Rightarrow>
          (case emailSchema zod_email v of
             None \<Rightarrow> None
           | Some e \<Rightarrow>
               (case body ''password'' of
                  Some (JString p) \<Rightarrow> if 1 \<le> length p then Some (e, p) else None
                | _ \<Rightarrow> None)))"

definition createTranscriptionSchema :: "jsbody \<Rightarrow> (string \<times> source) option" where
  "createTranscriptionSchema body =
     (let t = (case body ''title'' of
                 None \<Rightarrow> Some ''New Transcription''
               | Some (JString s) \<Rightarrow> if 1 \<le> length s \<and> length s \<le> 200 then Some s else None
               | Some _ \<Rightarrow> None);
          src = (case body ''source'' of
                   None \<Rightarrow> Some Upload
                 | Some (JString s) \<Rightarrow>
                     if s = ''upload'' then Some Upload
                     else if s = ''recording'' then Some Recording else None
                 | Some _ \<Rightarrow> None)
      in case (t, src) of (Some t', Some src') \<Rightarrow> Some (t', src') | _ \<Rightarrow> None)"

text \<open>The parsed data of \<open>updateTranscriptionSchema\<close> is the optional title.\<close>

definition updateTranscriptionSchema :: "jsbody \<Rightarrow> string option option" where
  "updateTranscriptionSchema body =
     (case body ''title'' of
        None \<Rightarrow> Some None
      | Some (JString s) \<Rightarrow> if 1 \<le> length s \<and> length s \<le> 200 then Some (Some s) else None
      | Some _ \<Rightarrow> None)"

definition deleteAccountSchema :: "jsbody \<Rightarrow> string option" where
  "deleteAccountSchema body =
     (case body ''password'' of
        Some (JString p) \<Rightarrow> if 1 \<le> length p then Some p else None
      | _ \<Rightarrow> None)"

subsection \<open>The state of the server\<close>

text \<open>
  A background task of \<open>uploadAndTranscribe\<close>: the in-memory document \<open>transcription\<close>,
  the estimated \<open>duration\<close> its callbacks close over, and the promise of the provider
  call.  The call starts inside the handler, so what it reads from the disk and the
  environment is fixed there; its outcome still depends on what the remote service
  answers.
\<close>

record job =
  job_doc :: transcription_doc
  job_duration :: nat
  job_promise :: "remote \<Rightarrow> string + transcribe_result"

text \<open>
  The two collections, the upload directory, the tasks whose promise is not settled
  yet, the next fresh document id, and the \<^verbatim>\<open>DEEPGRAM_API_KEY\<close> of the environment.
\<close>

record world =
  users :: "user list"
  transcriptions :: "nat \<rightharpoonup> transcription_doc"
  files :: disk
  pending :: "job list"
  next_id :: nat
  api_key :: "string option"

subsection \<open>Authentication controller\<close>

definition login ::
  "(string \<Rightarrow> bool) \<Rightarrow> string \<Rightarrow> string \<Rightarrow> nat \<Rightarrow> world \<Rightarrow> jsbody \<Rightarrow> response \<times> world" where
  "login zod_email JWT_SECRET JWT_REFRESH_SECRET now w body =
     (case loginUserSchema zod_email body of
        None \<Rightarrow> (respond 400 ValidationFailed, w)
      | Some (em, pw) \<Rightarrow>
          (case findOneByEmail (users w) em of
             None \<Rightarrow> (respond 401 (MessageCode ''Invalid email or password'' ''INVALID_CREDENTIALS''), w)
           | Some u \<Rightarrow>
               if isLocked now u then
                 (respond 423 (MessageCode ''Account temporarily locked due to too many failed attempts''
                    ''ACCOUNT_LOCKED''), w)
               else if \<not> isActive u then
                 (respond 401 (MessageCode ''Account has been deactivated'' ''ACCOUNT_DEACTIVATED''), w)
               else if \<not> bcrypt_compare pw (password u) then
                 (respond 401 (MessageCode ''Invalid email or password'' ''INVALID_CREDENTIALS''),
                  w\<lparr>users := saveUser (users w) (incLoginAttempts now u)\<rparr>)
               else
                 (respond 200
                    (LoginJson
                       (generateAccessToken JWT_SECRET now
                          \<lparr>p_userId = user_id u, p_email = user_email u,
                           p_username = user_username u, p_tokenVersion = Some (tokenVersion u)\<rparr>)
                       (generateRefreshToken JWT_REFRESH_SECRET now
                          \<lparr>rp_userId = user_id u, rp_tokenVersion = tokenVersion u\<rparr>)
                       (user_id u) (user_username u) (user_email u) (now + 15 * 60 * 1000)),
                  w\<lparr>users := saveUser (users w) (resetLoginAttempts now u)\<rparr>)))"

definition logoutAllDevices :: "world \<Rightarrow> JWTPayload \<Rightarrow> response \<times> world" where
  "logoutAllDevices w req_user =
     (case findById (users w) (p_userId req_user) of
        None \<Rightarrow> (respond 404 (Message ''User not found''), w)
      | Some u \<Rightarrow>
          (respond 200 (Message ''Logged out from all devices successfully''),
           w\<lparr>users := saveUser (users w) (incrementTokenVersion u)\<rparr>))"

subsection \<open>Transcription controller: upload\<close>

record upload_request =
  up_user :: JWTPayload
  up_file :: "multer_file option"
  up_body :: jsbody

text \<open>
  \<open>transcribeRecordingOptimized\<close>: \<^verbatim>\<open>fs.readFileSync\<close> runs before the first
  \<^verbatim>\<open>await\<close>, and an exception of it rejects the promise.
\<close>

definition transcribeRecordingOptimized ::
  "string option \<Rightarrow> remote \<Rightarrow> disk \<Rightarrow> string \<Rightarrow> string \<Rightarrow> string + transcribe_result" where
  "transcribeRecordingOptimized apiKey dg fs filePath mime =
     (case fs filePath of
        None \<Rightarrow> Inl ''ENOENT: no such file or directory''
      | Some audioBuffer \<Rightarrow> deepgramService_transcribeBuffer apiKey dg audioBuffer mime)"

text \<open>
  \<^verbatim>\<open>new TranscriptionModel({...})\<close>: the setters \<^verbatim>\<open>trim\<close> and \<^verbatim>\<open>lowercase\<close> of the
  schema run on assignment, the defaults fill \<open>confidence\<close> and \<open>language\<close>, and the
  first \<^verbatim>\<open>save()\<close> stamps both timestamps.
\<close>

definition new_transcription ::
  "nat \<Rightarrow> nat \<Rightarrow> user \<Rightarrow> string \<Rightarrow> source \<Rightarrow> multer_file \<Rightarrow> bytes \<Rightarrow> nat \<Rightarrow> transcription_doc" where
  "new_transcription oid now u ttl src file audio dur =
     \<lparr>doc_id = oid, userId = user_id u, username = trim (user_username u),
      email = toLowerCase (trim (user_email u)), title = trim ttl,
      originalFilename = originalname file, fileUrl = f_path file, audioData = audio,
      mimeType = mimetype file, fileSize = f_size file, duration = real dur,
      transcription = [], confidence = 0, language = ''en'', status = Processing,
      source = src, metadata = None, createdAt = now, updatedAt = now\<rparr>"

text \<open>
  The handler up to its response.  The \<^verbatim>\<open>then\<close> and \<^verbatim>\<open>catch\<close> callbacks it
  registers on the provider's promise run later, as \<open>settle\<close> below; the handler
  leaves the task in \<open>pending\<close>.  An exception inside the \<^verbatim>\<open>try\<close> block (the file
  cannot be read, or \<^verbatim>\<open>save()\<close> rejects the document) reaches the \<^verbatim>\<open>catch\<close> block,
  which removes the uploaded file and answers 500.
\<close>

definition uploadAndTranscribe :: "nat \<Rightarrow> world \<Rightarrow> upload_request \<Rightarrow> response \<times> world" where
  "uploadAndTranscribe now w req =
     (case up_file req of
        None \<Rightarrow> (respond 400 (Failure ''No audio file provided''), w)
      | Some file \<Rightarrow>
          let validation = validateAudioFile (Some file)
          in if \<not> valid validation then (respond 400 (Failure (or_empty (error validation))), w)
             else
               (case createTranscriptionSchema (up_body req) of
                  None \<Rightarrow> (respond 400 ValidationFailed, w)
                | Some (ttl, src) \<Rightarrow>
                    let filePath = f_path file
                    in (case findById (users w) (p_userId (up_user req)) of
                          None \<Rightarrow> (respond 404 (Failure ''User not found''), w)
                        | Some u \<Rightarrow>
                            (case files w filePath of
                               None \<Rightarrow>
                                 (respond 500 (Failure ''Failed to process audio file''),
                                  w\<lparr>files := cleanupFile (files w) filePath\<rparr>)
                             | Some audioBuffer \<Rightarrow>
                                 let dur = getAudioDuration (files w) filePath;
                                     d = new_transcription (next_id w) now u ttl src file audioBuffer dur
                                 in if \<not> validateSync d then
                                      (respond 500 (Failure ''Failed to process audio file''),
                                       w\<lparr>files := cleanupFile (files w) filePath\<rparr>)
                                    else
                                      (respond 201
                                         (UploadAccepted (doc_id d) (title d) (status d)
                                            (originalFilename d) (fileSize d) (duration d) (createdAt d)),
                                       w\<lparr>transcriptions := (transcriptions w)(doc_id d \<mapsto> d),
                                         next_id := Suc (next_id w),
                                         pending := pending w @
                                           [\<lparr>job_doc = d, job_duration = dur,
                                             job_promise = (\<lambda>dg.
                                               if src = Recording
                                               then transcribeRecordingOptimized (api_key w) dg (files w)
                                                      filePath (mimetype file)
                                               else deepgramService_transcribeFile (api_key w) dg (files w)
                                                      filePath)\<rparr>]\<rparr>)))))"

text \<open>
  \<^verbatim>\<open>save()\<close> on a document that is already stored: validation first, then an update
  of the stored document that sets the paths assigned since the last save and
  \<open>updatedAt\<close>.  It rejects when validation fails and when no stored document has
  the id any more.  \<open>full\<close> tells whether the result paths were assigned (the \<^verbatim>\<open>then\<close>
  callback ran) or the status alone.
\<close>

definition save_existing :: "nat \<Rightarrow> world \<Rightarrow> transcription_doc \<Rightarrow> bool \<Rightarrow> world option" where
  "save_existing now w d full =
     (if \<not> validateSync d then None
      else case transcriptions w (doc_id d) of
             None \<Rightarrow> None
           | Some stored \<Rightarrow>
               Some (w\<lparr>transcriptions := (transcriptions w)(doc_id d \<mapsto>
                 (if full
                  then stored\<lparr>transcription := transcription d, confidence := confidence d,
                              duration := duration d, status := status d,
                              metadata := metadata d, updatedAt := now\<rparr>
                  else stored\<lparr>status := status d, updatedAt := now\<rparr>))\<rparr>))"

text \<open>
  The \<^verbatim>\<open>catch\<close> callback: mark the document failed, save it, then remove the file.
  When the save rejects, the callback ends there.
\<close>

definition on_rejected :: "nat \<Rightarrow> world \<Rightarrow> transcription_doc \<Rightarrow> bool \<Rightarrow> world" where
  "on_rejected now w d full =
     (case save_existing now w (d\<lparr>status := Failed\<rparr>) full of
        None \<Rightarrow> w
      | Some w' \<Rightarrow> w'\<lparr>files := cleanupFile (files w') (fileUrl d)\<rparr>)"

text \<open>Casting \<^verbatim>\<open>result.metadata\<close> to the schema's metadata paths.\<close>

definition cast_metadata :: "result_metadata \<Rightarrow> metadata" where
  "cast_metadata m =
     \<lparr>deepgramRequestId = rm_deepgramRequestId m, modelInfo = rm_modelInfo m,
      processingTime = Some (rm_processingTime m)\<rparr>"

text \<open>
  The \<^verbatim>\<open>then\<close> callback: assign the result paths and save.  A rejection of that save
  is caught by the \<^verbatim>\<open>catch\<close> callback chained behind it.
\<close>

definition on_fulfilled :: "nat \<Rightarrow> world \<Rightarrow> job \<Rightarrow> transcribe_result \<Rightarrow> world" where
  "on_fulfilled now w j result =
     (let d = (job_doc j)\<lparr>transcription := r_transcription result,
                          confidence := r_confidence result,
                          duration := (if r_duration result \<noteq> 0 then r_duration result
                                       else real (job_duration j)),
                          status := Completed,
                          metadata := Some (cast_metadata (r_metadata result))\<rparr>
      in case save_existing now w d True of
           Some w' \<Rightarrow> w'
         | None \<Rightarrow> on_rejected now w d True)"

text \<open>
  Settling the promise of a pending task against the answer \<open>dg\<close> of the remote
  service: the task of that document leaves \<open>pending\<close> and one of the two callbacks
  runs.
\<close>

definition settle :: "nat \<Rightarrow> world \<Rightarrow> job \<Rightarrow> remote \<Rightarrow> world" where
  "settle now w j dg =
     (let w0 = w\<lparr>pending := filter (\<lambda>k. doc_id (job_doc k) \<noteq> doc_id (job_doc j)) (pending w)\<rparr>
      in case job_promise j dg of
           Inr result \<Rightarrow> on_fulfilled now w0 j result
         | Inl err \<Rightarrow> on_rejected now w0 (job_doc j) False)"

subsection \<open>Transcription controller: the per-record handlers\<close>

text \<open>
  The \<^verbatim>\<open>:id\<close> parameter of the route is cast to an object id by the query; a text
  that is no object id makes the query throw, which the handlers answer with 500.
\<close>

datatype idparam = Oid nat | Malformed string

text \<open>The filter \<^verbatim>\<open>{ _id: id, userId }\<close> of every per-record query.\<close>

definition findOne :: "(nat \<rightharpoonup> transcription_doc) \<Rightarrow> nat \<Rightarrow> nat \<Rightarrow> transcription_doc option" where
  "findOne coll i uid =
     (case coll i of
        None \<Rightarrow> None
      | Some d \<Rightarrow> if userId d = uid then Some d else None)"

definition getTranscription :: "world \<Rightarrow> JWTPayload \<Rightarrow> idparam \<Rightarrow> response \<times> world" where
  "getTranscription w req_user idp =
     (case idp of
        Malformed _ \<Rightarrow> (respond 500 (Message ''Failed to fetch transcription''), w)
      | Oid i \<Rightarrow>
          (case findOne (transcriptions w) i (p_userId req_user) of
             None \<Rightarrow> (respond 404 (Message ''Transcription not found''), w)
           | Some t \<Rightarrow> (respond 200 (TranscriptionJson t), w)))"

text \<open>
  \<^verbatim>\<open>findOneAndUpdate(filter, validation.data, { new: true })\<close>: the update sets the
  paths of the parsed data, through the schema's setters, and the schema's timestamps
  add \<open>updatedAt\<close>.
\<close>

definition updateTranscription ::
  "nat \<Rightarrow> world \<Rightarrow> JWTPayload \<Rightarrow> idparam \<Rightarrow> jsbody \<Rightarrow> response \<times> world" where
  "updateTranscription now w req_user idp body =
     (case updateTranscriptionSchema body of
        None \<Rightarrow> (respond 400 ValidationFailed, w)
      | Some data \<Rightarrow>
          (case idp of
             Malformed _ \<Rightarrow> (respond 500 (Message ''Failed to update transcription''), w)
           | Oid i \<Rightarrow>
               (case findOne (transcriptions w) i (p_userId req_user) of
                  None \<Rightarrow> (respond 404 (Message ''Transcription not found''), w)
                | Some t \<Rightarrow>
                    let t' = (case data of None \<Rightarrow> t | Some ttl \<Rightarrow> t\<lparr>title := trim ttl\<rparr>)
                               \<lparr>updatedAt := now\<rparr>
                    in (respond 200 (UpdatedJson ''Transcription updated successfully'' t'),
                        w\<lparr>transcriptions := (transcriptions w)(i \<mapsto> t')\<rparr>))))"

text \<open>
  \<open>deleteTranscription\<close>: the password is checked before the record is looked up.
  \<^verbatim>\<open>bcrypt.compare\<close> throws on a password that is not a string.
\<close>

definition deleteTranscription ::
  "world \<Rightarrow> JWTPayload \<Rightarrow> idparam \<Rightarrow> jsbody \<Rightarrow> response \<times> world" where
  "deleteTranscription w req_user idp body =
     (let pw = body ''password''
      in if pw = None \<or> pw = Some JFalsy \<or> pw = Some (JString []) then
           (respond 400 (Message ''Password is required to delete transcription''), w)
         else
           (case findById (users w) (p_userId req_user) of
              None \<Rightarrow> (respond 404 (Message ''User not found''), w)
            | Some u \<Rightarrow>
                (case pw of
                   Some (JString p) \<Rightarrow>
                     if \<not> bcrypt_compare p (password u) then
                       (respond 401 (Message ''Invalid password. Deletion cancelled.''), w)
                     else
                       (case idp of
                          Malformed _ \<Rightarrow> (respond 500 (Message ''Failed to delete transcription''), w)
                        | Oid i \<Rightarrow>
                            (case findOne (transcriptions w) i (p_userId req_user) of
                               None \<Rightarrow> (respond 404 (Message ''Transcription not found''), w)
                             | Some t \<Rightarrow>
                                 (respond 200 (Message ''Transcription deleted successfully''),
                                  w\<lparr>transcriptions := (transcriptions w)(i := None),
                                    files := cleanupFile (files w) (fileUrl t)\<rparr>)))
                 | _ \<Rightarrow> (respond 500 (Message ''Failed to delete transcription''), w))))"

text \<open>\<^verbatim>\<open>title.replace(/[^a-z0-9]/gi, '_')\<close>\<close>

definition sanitize :: "string \<Rightarrow> string" where
  "sanitize s = map (\<lambda>c. if isAlnum c then c else CHR ''_'') s"

definition downloadTranscription ::
  "world \<Rightarrow> JWTPayload \<Rightarrow> idparam \<Rightarrow> string option \<Rightarrow> response \<times> world" where
  "downloadTranscription w req_user idp fmt =
     (let format = (case fmt of None \<Rightarrow> ''txt'' | Some f \<Rightarrow> f)
      in case idp of
           Malformed _ \<Rightarrow> (respond 500 (Message ''Failed to download transcription''), w)
         | Oid i \<Rightarrow>
             (case findOne (transcriptions w) i (p_userId req_user) of
                None \<Rightarrow> (respond 404 (Message ''Transcription not found''), w)
              | Some t \<Rightarrow>
                  if status t \<noteq> Completed then
                    (respond 400 (Message ''Transcription not yet completed''), w)
                  else
                    let filename = sanitize (title t) @ ''.'' @ format
                    in if format = ''json'' then (respond 200 (JsonAttachment filename t), w)
                       else (respond 200 (TextAttachment filename (transcription t)), w)))"

subsection \<open>User controller: account deletion\<close>

text \<open>
  \<^verbatim>\<open>TranscriptionModel.find({ userId })\<close>.  Document ids are handed out below
  \<open>next_id\<close>, so the collection is enumerated up to there.
\<close>

definition find_by_user :: "world \<Rightarrow> nat \<Rightarrow> transcription_doc list" where
  "find_by_user w uid =
     filter (\<lambda>d. userId d = uid) (List.map_filter (transcriptions w) [0..<next_id w])"

text \<open>The loop over the user's transcriptions: the disk and the count of deleted files.\<close>

fun delete_files :: "transcription_doc list \<Rightarrow> disk \<Rightarrow> nat \<Rightarrow> disk \<times> nat" where
  "delete_files [] fs filesDeleted = (fs, filesDeleted)"
| "delete_files (t # ts) fs filesDeleted =
     (if fileUrl t \<noteq> [] \<and> fs (fileUrl t) \<noteq> None
      then delete_files ts (fs(fileUrl t := None)) (filesDeleted + 1)
      else delete_files ts fs filesDeleted)"

definition deleteAccount :: "world \<Rightarrow> JWTPayload \<Rightarrow> jsbody \<Rightarrow> response \<times> world" where
  "deleteAccount w req_user body =
     (case deleteAccountSchema body of
        None \<Rightarrow> (respond 400 ValidationFailed, w)
      | Some pw \<Rightarrow>
          let uid = p_userId req_user
          in (case findById (users w) uid of
                None \<Rightarrow> (respond 404 (Message ''User not found''), w)
              | Some u \<Rightarrow>
                  if \<not> bcrypt_compare pw (password u) then
                    (respond 401 (Message ''Incorrect password''), w)
                  else
                    let userTranscriptions = find_by_user w uid;
                        (fs, filesDeleted) = delete_files userTranscriptions (files w) 0
                    in (respond 200 (AccountDeleted (length userTranscriptions) filesDeleted),
                        w\<lparr>transcriptions := (\<lambda>i. case transcriptions w i of
                                                     None \<Rightarrow> None
                                                   | Some d \<Rightarrow> if userId d = uid then None else Some d),
                          files := fs,
                          users := filter (\<lambda>x. user_id x \<noteq> uid) (users w)\<rparr>)))"

subsection \<open>Runs of the server\<close>

text \<open>
  The server handles one callback at a time.  A run starts with empty collections and
  an empty upload directory and extends by one handler call or one settled promise;
  its trace lists what happened, oldest first.  The handlers that write the user
  collection alone (registration, login, logout, profile and password changes) are
  covered by one rule that lets the user collection change, and the upload middleware
  by one that stores a file.  The handlers that only read (get, list, statistics,
  download) leave the state as it is and add nothing to a run.
\<close>

datatype event =
    EvUsers
  | EvStored string
  | EvUpload response
  | EvSettled nat
  | EvUpdate response
  | EvDelete response
  | EvDeleteAccount response

definition initial :: "string option \<Rightarrow> world" where
  "initial key =
     \<lparr>users = [], transcriptions = Map.empty, files = Map.empty, pending = [], next_id = 0,
      api_key = key\<rparr>"

inductive run :: "event list \<Rightarrow> world \<Rightarrow> bool" where
  start: "run [] (initial key)"
| users: "run tr w \<Longrightarrow> run (tr @ [EvUsers]) (w\<lparr>users := us\<rparr>)"
| stored: "run tr w \<Longrightarrow> run (tr @ [EvStored p]) (w\<lparr>files := (files w)(p \<mapsto> content)\<rparr>)"
| upload: "run tr w \<Longrightarrow> uploadAndTranscribe now w req = (resp, w') \<Longrightarrow> run (tr @ [EvUpload resp]) w'"
| settled: "run tr w \<Longrightarrow> j \<in> set (pending w) \<Longrightarrow>
            run (tr @ [EvSettled (doc_id (job_doc j))]) (settle now w j dg)"
| update: "run tr w \<Longrightarrow> updateTranscription now w req_user idp body = (resp, w') \<Longrightarrow>
           run (tr @ [EvUpdate resp]) w'"
| delete: "run tr w \<Longrightarrow> deleteTranscription w req_user idp body = (resp, w') \<Longrightarrow>
           run (tr @ [EvDelete resp]) w'"
| delete_account: "run tr w \<Longrightarrow> deleteAccount w req_user body = (resp, w') \<Longrightarrow>
                   run (tr @ [EvDeleteAccount resp]) w'"

subsection \<open>Vocabulary of the properties\<close>

text \<open>
  The provider call has failed on the provider's side: the remote call threw or
  returned an error, or its response has no first alternative of a first channel.
\<close>

definition provider_failure :: "dg_response \<Rightarrow> bool" where
  "provider_failure resp =
     (case resp of
        Threw _ \<Rightarrow> True
      | Returned result err \<Rightarrow> err \<noteq> None \<or> first_alternative result = None)"

text \<open>The confidence and the duration as the provider reported them, if it did.\<close>

definition provider_confidence :: "dg_response \<Rightarrow> real option" where
  "provider_confidence resp =
     (case resp of
        Threw _ \<Rightarrow> None
      | Returned result _ \<Rightarrow> Option.bind (first_alternative result) alt_confidence)"

definition provider_duration :: "dg_response \<Rightarrow> real option" where
  "provider_duration resp =
     (case resp of
        Threw _ \<Rightarrow> None
      | Returned result _ \<Rightarrow> Option.bind (Option.bind result dg_meta) md_duration)"

text \<open>
  A stored document is consistent: its transcript is empty unless it is completed, and
  its confidence lies between 0 and 1.
\<close>

definition doc_ok :: "transcription_doc \<Rightarrow> bool" where
  "doc_ok d =
     ((status d \<noteq> Completed \<longrightarrow> transcription d = []) \<and> 0 \<le> confidence d \<and> confidence d \<le> 1)"

text \<open>
  A pending task is consistent with the state: its in-memory document passed
  validation and has an id that was handed out, and the stored document of that id,
  while it exists, is still processing and has the task's file.
\<close>

definition job_ok :: "world \<Rightarrow> job \<Rightarrow> bool" where
  "job_ok w j =
     (doc_id (job_doc j) < next_id w \<and> validateSync (job_doc j) \<and>
      (\<forall>d. transcriptions w (doc_id (job_doc j)) = Some d \<longrightarrow>
           status d = Processing \<and> fileUrl d = fileUrl (job_doc j)))"

text \<open>
  The invariant of the runs: stored documents sit under their own id, below
  \<open>next_id\<close>, and are consistent; pending tasks are consistent, one per document.
\<close>

definition wf_world :: "world \<Rightarrow> bool" where
  "wf_world w =
     ((\<forall>i d. transcriptions w i = Some d \<longrightarrow> doc_id d = i \<and> i < next_id w \<and> doc_ok d) \<and>
      (\<forall>j \<in> set (pending w). job_ok w j) \<and>
      distinct (map (\<lambda>j. doc_id (job_doc j)) (pending w)))"

text \<open>The id of the record that an upload event reports as created with status 201.\<close>

fun accepted_id :: "event \<Rightarrow> nat option" where
  "accepted_id (EvUpload resp) =
     (case json resp of
        UploadAccepted i _ _ _ _ _ _ \<Rightarrow> if statusCode resp = 201 then Some i else None
      | _ \<Rightarrow> None)"
| "accepted_id _ = None"

text \<open>
  Two documents agree on every path except \<open>title\<close> and \<open>updatedAt\<close>.
\<close>

definition same_but_title :: "transcription_doc \<Rightarrow> transcription_doc \<Rightarrow> bool" where
  "same_but_title d d' = (d' = d\<lparr>title := title d', updatedAt := updatedAt d'\<rparr>)"

subsection \<open>Sample data\<close>

text \<open>Two accounts, an uploaded clip, and answers of the remote service.\<close>

definition ann :: user where
  "ann = \<lparr>user_id = 1, user_username = ''ann'', user_email = ''ann@example.org'',
          password = Bcrypt 14 ''Secret#123'', tokenVersion = 0, isActive = True,
          loginAttempts = 0, lockUntil = None, lastLoginAt = None, user_createdAt = 0\<rparr>"

definition bob :: user where
  "bob = \<lparr>user_id = 2, user_username = ''bob'', user_email = ''bob@example.org'',
          password = Bcrypt 14 ''Hunter#222'', tokenVersion = 0, isActive = True,
          loginAttempts = 0, lockUntil = None, lastLoginAt = None, user_createdAt = 0\<rparr>"

definition ann_payload :: JWTPayload where
  "ann_payload = \<lparr>p_userId = 1, p_email = ''ann@example.org'', p_username = ''ann'',
                  p_tokenVersion = Some 0\<rparr>"

definition bob_payload :: JWTPayload where
  "bob_payload = \<lparr>p_userId = 2, p_email = ''bob@example.org'', p_username = ''bob'',
                  p_tokenVersion = Some 0\<rparr>"

definition clip :: multer_file where
  "clip = \<lparr>originalname = ''clip.wav'', mimetype = ''audio/wav'', f_size = 4,
           f_path = ''uploads/audio-1.wav''\<rparr>"

definition clip_bytes :: bytes where
  "clip_bytes = [82, 73, 70, 70]"

definition w_start :: world where
  "w_start = initial (Some ''dg-key'')"

definition w_users :: world where
  "w_users = w_start\<lparr>users := [ann, bob]\<rparr>"

definition w_ready :: world where
  "w_ready = w_users\<lparr>files := (files w_users)(''uploads/audio-1.wav'' \<mapsto> clip_bytes)\<rparr>"

definition upload_req :: upload_request where
  "upload_req = \<lparr>up_user = bob_payload, up_file = Some clip, up_body = Map.empty\<rparr>"

definition bob_doc :: transcription_doc where
  "bob_doc = new_transcription 0 1000 bob ''New Transcription'' Upload clip clip_bytes 1"

definition bob_job :: job where
  "bob_job =
     \<lparr>job_doc = bob_doc, job_duration = 1,
      job_promise = (\<lambda>dg. deepgramService_transcribeFile (Some ''dg-key'') dg
                             [''uploads/audio-1.wav'' \<mapsto> clip_bytes] ''uploads/audio-1.wav'')\<rparr>"

definition w_uploaded :: world where
  "w_uploaded = snd (uploadAndTranscribe 1000 w_ready upload_req)"

definition the_job :: job where
  "the_job = hd (pending w_uploaded)"

definition spoken :: dg_result where
  "spoken =
     \<lparr>results = Some \<lparr>channels = Some [\<lparr>alternatives =
          Some [\<lparr>transcript = Some ''hello world'', alt_confidence = Some (98 / 100)\<rparr>]\<rparr>]\<rparr>,
      dg_meta = None\<rparr>"

definition silence :: dg_result where
  "silence =
     \<lparr>results = Some \<lparr>channels = Some [\<lparr>alternatives =
          Some [\<lparr>transcript = Some [], alt_confidence = None\<rparr>]\<rparr>]\<rparr>,
      dg_meta = None\<rparr>"

definition good_remote :: remote where
  "good_remote audio mime = Returned (Some spoken) None"

definition silent_remote :: remote where
  "silent_remote audio mime = Returned (Some silence) None"

definition down_remote :: remote where
  "down_remote audio mime = Threw ''ECONNRESET''"

definition w_silent :: world where
  "w_silent = settle 2000 w_uploaded the_job silent_remote"

definition w_spoken :: world where
  "w_spoken = settle 2000 w_uploaded the_job good_remote"

definition w_down :: world where
  "w_down = settle 2000 w_uploaded the_job down_remote"

text \<open>Login bodies for Ann: her password, a wrong one, and an empty one.\<close>

definition login_body :: "string \<Rightarrow> jsbody" where
  "login_body pw = [''email'' \<mapsto> JString ''Ann@Example.org'', ''password'' \<mapsto> JString pw]"

definition wrong_login :: "world \<Rightarrow> world" where
  "wrong_login w = snd (login email_regex ''s1'' ''s2'' 1000 w (login_body ''guess''))"

definition w_locked :: world where
  "w_locked = wrong_login (wrong_login (wrong_login (wrong_login (wrong_login w_ready))))"

text \<open>The access token a login of Ann at time 1000000 gives, and the state after it.\<close>

definition ann_token :: "JWTPayload jwt" where
  "ann_token = generateAccessToken ''s1'' 1000000 ann_payload"

definition w_logged_in :: world where
  "w_logged_in = snd (login email_regex ''s1'' ''s2'' 1000000 w_ready (login_body ''Secret#123''))"

definition w_logged_out :: world where
  "w_logged_out = snd (logoutAllDevices w_logged_in ann_payload)"

section \<open>Properties\<close>

subsection \<open>The handlers by cases\<close>

lemma upload_accept:
  assumes "up_file req = Some fl" "valid (validateAudioFile (Some fl))"
    "createTranscriptionSchema (up_body req) = Some (ttl, src)"
    "findById (users w) (p_userId (up_user req)) = Some u"
    "files w (f_path fl) = Some audio"
    "d = new_transcription (next_id w) now u ttl src fl audio (getAudioDuration (files w) (f_path fl))"
    "validateSync d"
    "j = \<lparr>job_doc = d, job_duration = getAudioDuration (files w) (f_path fl),
                 job_promise = (\<lambda>dg. if src = Recording
                    then transcribeRecordingOptimized (api_key w) dg (files w) (f_path fl) (mimetype fl)
                    else deepgramService_transcribeFile (api_key w) dg (files w) (f_path fl))\<rparr>"
  shows "uploadAndTranscribe now w req =
           (respond 201 (UploadAccepted (next_id w) (title d) Processing (originalFilename d)
                   (fileSize d) (duration d) (createdAt d)),
            w\<lparr>transcriptions := (transcriptions w)(next_id w \<mapsto> d),
                         next_id := Suc (next_id w), pending := pending w @ [j]\<rparr>)"
proof -
  have sel: "doc_id d = next_id w" "status d = Processing"
    by (simp_all add: assms(6) new_transcription_def)
  have "uploadAndTranscribe now w req =
           (respond 201 (UploadAccepted (doc_id d) (title d) (status d) (originalFilename d)
                   (fileSize d) (duration d) (createdAt d)),
            w\<lparr>transcriptions := (transcriptions w)(doc_id d \<mapsto> d),
                         next_id := Suc (next_id w), pending := pending w @ [j]\<rparr>)"
    using assms(1-5,7) unfolding assms(6) assms(8)
    by (simp add: uploadAndTranscribe_def Let_def)
  then show ?thesis by (simp only: sel)
qed

lemma upload_cases:
  assumes "uploadAndTranscribe now w req = (resp, w')"
  obtains
    (unchanged) "w' = w" "statusCode resp \<noteq> 201"
  | (cleaned) fs where "w' = w\<lparr>files := fs\<rparr>" "statusCode resp \<noteq> 201"
  | (accepted) fl ttl src u audio d j where
      "up_file req = Some fl" "valid (validateAudioFile (Some fl))"
      "createTranscriptionSchema (up_body req) = Some (ttl, src)"
      "findById (users w) (p_userId (up_user req)) = Some u"
      "files w (f_path fl) = Some audio"
      "d = new_transcription (next_id w) now u ttl src fl audio (getAudioDuration (files w) (f_path fl))"
      "validateSync d"
      "job_doc j = d"
      "resp = respond 201 (UploadAccepted (next_id w) (title d) Processing (originalFilename d)
                   (fileSize d) (duration d) (createdAt d))"
      "w' = w\<lparr>transcriptions := (transcriptions w)(next_id w \<mapsto> d), next_id := Suc (next_id w),
                 pending := pending w @ [j]\<rparr>"
proof (cases "up_file req")
  case None
  with assms have "w' = w" "statusCode resp \<noteq> 201"
    by (auto simp: uploadAndTranscribe_def respond_def)
  then show ?thesis by (rule unchanged)
next
  case (Some fl)
  note fl = this
  show ?thesis
  proof (cases "valid (validateAudioFile (Some fl))")
    case False
    with assms fl have "w' = w" "statusCode resp \<noteq> 201"
      by (auto simp: uploadAndTranscribe_def respond_def Let_def)
    then show ?thesis by (rule unchanged)
  next
    case True
    note vl = this
    show ?thesis
    proof (cases "createTranscriptionSchema (up_body req)")
      case None
      with assms fl vl have "w' = w" "statusCode resp \<noteq> 201"
        by (auto simp: uploadAndTranscribe_def respond_def Let_def)
      then show ?thesis by (rule unchanged)
    next
      case (Some ts)
      then obtain ttl src where ts: "createTranscriptionSchema (up_body req) = Some (ttl, src)"
        by (cases ts) auto
      show ?thesis
      proof (cases "findById (users w) (p_userId (up_user req))")
        case None
        with assms fl vl ts have "w' = w" "statusCode resp \<noteq> 201"
          by (auto simp: uploadAndTranscribe_def respond_def Let_def)
        then show ?thesis by (rule unchanged)
      next
        case (Some u)
        note u = this
        show ?thesis
        proof (cases "files w (f_path fl)")
          case None
          with assms fl vl ts u
          have "w' = w\<lparr>files := cleanupFile (files w) (f_path fl)\<rparr>" "statusCode resp \<noteq> 201"
            by (auto simp: uploadAndTranscribe_def respond_def Let_def)
          then show ?thesis by (rule cleaned)
        next
          case (Some audio)
          note audio = this
          define d where "d = new_transcription (next_id w) now u ttl src fl audio
                                (getAudioDuration (files w) (f_path fl))"
          show ?thesis
          proof (cases "validateSync d")
            case False
            with assms fl vl ts u audio
            have "w' = w\<lparr>files := cleanupFile (files w) (f_path fl)\<rparr>" "statusCode resp \<noteq> 201"
              by (auto simp: uploadAndTranscribe_def respond_def Let_def d_def)
            then show ?thesis by (rule cleaned)
          next
            case True
            define j where "j = \<lparr>job_doc = d, job_duration = getAudioDuration (files w) (f_path fl),
                 job_promise = (\<lambda>dg. if src = Recording
                    then transcribeRecordingOptimized (api_key w) dg (files w) (f_path fl) (mimetype fl)
                    else deepgramService_transcribeFile (api_key w) dg (files w) (f_path fl))\<rparr>"
            from upload_accept[OF fl vl ts u audio d_def True j_def] assms
            have "resp = respond 201 (UploadAccepted (next_id w) (title d) Processing (originalFilename d)
                   (fileSize d) (duration d) (createdAt d))"
              and "w' = w\<lparr>transcriptions := (transcriptions w)(next_id w \<mapsto> d),
                         next_id := Suc (next_id w), pending := pending w @ [j]\<rparr>"
              by simp_all
            with fl vl ts u audio d_def True show ?thesis
              by (intro accepted[of fl ttl src u audio d j]) (simp_all add: j_def)
          qed
        qed
      qed
    qed
  qed
qed

lemma findOne_Some: "findOne coll i uid = Some t \<longleftrightarrow> coll i = Some t \<and> userId t = uid"
  by (auto simp: findOne_def split: option.splits)

lemma update_cases:
  assumes "updateTranscription now w req_user idp body = (resp, w')"
  obtains
    (unchanged) "w' = w" "statusCode resp \<noteq> 200"
  | (updated) i t data t' where
      "idp = Oid i" "updateTranscriptionSchema body = Some data"
      "transcriptions w i = Some t" "userId t = p_userId req_user"
      "t' = (case data of None \<Rightarrow> t | Some ttl \<Rightarrow> t\<lparr>title := trim ttl\<rparr>)\<lparr>updatedAt := now\<rparr>"
      "resp = respond 200 (UpdatedJson ''Transcription updated successfully'' t')"
      "w' = w\<lparr>transcriptions := (transcriptions w)(i \<mapsto> t')\<rparr>"
proof (cases "updateTranscriptionSchema body")
  case None
  with assms have "w' = w" "statusCode resp \<noteq> 200"
    by (auto simp: updateTranscription_def respond_def)
  then show ?thesis by (rule unchanged)
next
  case (Some data)
  note data = this
  show ?thesis
  proof (cases idp)
    case (Malformed x)
    with assms data have "w' = w" "statusCode resp \<noteq> 200"
      by (auto simp: updateTranscription_def respond_def)
    then show ?thesis by (rule unchanged)
  next
    case (Oid i)
    note i = this
    show ?thesis
    proof (cases "findOne (transcriptions w) i (p_userId req_user)")
      case None
      with assms data i have "w' = w" "statusCode resp \<noteq> 200"
        by (auto simp: updateTranscription_def respond_def)
      then show ?thesis by (rule unchanged)
    next
      case (Some t)
      define t' where "t' = (case data of None \<Rightarrow> t | Some ttl \<Rightarrow> t\<lparr>title := trim ttl\<rparr>)\<lparr>updatedAt := now\<rparr>"
      from assms data i Some
      have "resp = respond 200 (UpdatedJson ''Transcription updated successfully'' t')"
        "w' = w\<lparr>transcriptions := (transcriptions w)(i \<mapsto> t')\<rparr>"
        by (auto simp: updateTranscription_def Let_def t'_def)
      with Some i data t'_def show ?thesis
        by (intro updated[of i data t t']) (simp_all add: findOne_Some)
    qed
  qed
qed

lemma delete_cases:
  assumes "deleteTranscription w req_user idp body = (resp, w')"
  obtains
    (unchanged) "w' = w" "statusCode resp \<noteq> 200"
  | (deleted) i t u p where
      "idp = Oid i" "body ''password'' = Some (JString p)" "p \<noteq> []"
      "findById (users w) (p_userId req_user) = Some u" "bcrypt_compare p (password u)"
      "transcriptions w i = Some t" "userId t = p_userId req_user"
      "resp = respond 200 (Message ''Transcription deleted successfully'')"
      "w' = w\<lparr>transcriptions := (transcriptions w)(i := None),
               files := cleanupFile (files w) (fileUrl t)\<rparr>"
proof (cases "body ''password'' = None \<or> body ''password'' = Some JFalsy \<or>
              body ''password'' = Some (JString [])")
  case True
  with assms have "w' = w" "statusCode resp \<noteq> 200"
    by (auto simp: deleteTranscription_def respond_def Let_def)
  then show ?thesis by (rule unchanged)
next
  case False
  note pw = this
  show ?thesis
  proof (cases "findById (users w) (p_userId req_user)")
    case None
    with assms pw have "w' = w" "statusCode resp \<noteq> 200"
      by (auto simp: deleteTranscription_def respond_def Let_def)
    then show ?thesis by (rule unchanged)
  next
    case (Some u)
    note u = this
    show ?thesis
    proof (cases "\<exists>p. body ''password'' = Some (JString p) \<and> bcrypt_compare p (password u)")
      case False
      with assms pw u have "w' = w" "statusCode resp \<noteq> 200"
        by (auto simp: deleteTranscription_def respond_def Let_def split: option.splits jsval.splits)
      then show ?thesis by (rule unchanged)
    next
      case True
      then obtain p where p: "body ''password'' = Some (JString p)" "bcrypt_compare p (password u)"
        by blast
      with pw have pne: "p \<noteq> []" by simp
      show ?thesis
      proof (cases "\<exists>i t. idp = Oid i \<and> findOne (transcriptions w) i (p_userId req_user) = Some t")
        case False
        with assms pw u p have "w' = w" "statusCode resp \<noteq> 200"
          by (auto simp: deleteTranscription_def respond_def Let_def split: option.splits idparam.splits)
        then show ?thesis by (rule unchanged)
      next
        case True
        then obtain i t where it: "idp = Oid i" "findOne (transcriptions w) i (p_userId req_user) = Some t"
          by blast
        with assms pw u p
        have "resp = respond 200 (Message ''Transcription deleted successfully'')"
          "w' = w\<lparr>transcriptions := (transcriptions w)(i := None),
               files := cleanupFile (files w) (fileUrl t)\<rparr>"
          by (auto simp: deleteTranscription_def Let_def)
        with it u p pne show ?thesis
          by (intro deleted[of i p u t]) (simp_all add: findOne_Some)
      qed
    qed
  qed
qed

subsection \<open>The invariant of the runs\<close>

lemma wf_worldI:
  assumes "\<forall>i d. transcriptions w i = Some d \<longrightarrow> doc_id d = i \<and> i < next_id w \<and> doc_ok d"
    and "\<forall>j \<in> set (pending w). job_ok w j"
    and "distinct (map (\<lambda>j. doc_id (job_doc j)) (pending w))"
  shows "wf_world w"
  unfolding wf_world_def using assms by blast

lemma wf_worldD:
  assumes "wf_world w"
  shows "\<forall>i d. transcriptions w i = Some d \<longrightarrow> doc_id d = i \<and> i < next_id w \<and> doc_ok d"
    and "\<forall>j \<in> set (pending w). job_ok w j"
    and "distinct (map (\<lambda>j. doc_id (job_doc j)) (pending w))"
  using assms unfolding wf_world_def by blast+

lemma wf_initial: "wf_world (initial key)"
  by (rule wf_worldI) (simp_all add: initial_def)

lemma wf_users: "wf_world w \<Longrightarrow> wf_world (w\<lparr>users := us\<rparr>)"
  unfolding wf_world_def job_ok_def by simp

lemma wf_files: "wf_world w \<Longrightarrow> wf_world (w\<lparr>files := fs\<rparr>)"
  unfolding wf_world_def job_ok_def by simp

lemma validateSync_new:
  "validateSync (new_transcription oid now u ttl src fl audio dur) \<Longrightarrow>
   doc_ok (new_transcription oid now u ttl src fl audio dur)"
  by (simp add: doc_ok_def new_transcription_def)

lemma job_ok_submap:
  assumes "job_ok w j" "\<forall>i d. T' i = Some d \<longrightarrow> transcriptions w i = Some d"
  shows "job_ok (w\<lparr>transcriptions := T'\<rparr>) j"
  unfolding job_ok_def by (simp, use assms[unfolded job_ok_def] in blast)

lemma wf_submap:
  assumes "wf_world w" "\<forall>i d. T' i = Some d \<longrightarrow> transcriptions w i = Some d"
  shows "wf_world (w\<lparr>transcriptions := T'\<rparr>)"
proof (rule wf_worldI)
  note D = wf_worldD[OF assms(1)]
  show "\<forall>i d. transcriptions (w\<lparr>transcriptions := T'\<rparr>) i = Some d \<longrightarrow>
          doc_id d = i \<and> i < next_id (w\<lparr>transcriptions := T'\<rparr>) \<and> doc_ok d"
    by (simp, use D(1) assms(2) in blast)
  show "\<forall>j \<in> set (pending (w\<lparr>transcriptions := T'\<rparr>)). job_ok (w\<lparr>transcriptions := T'\<rparr>) j"
    by (simp, use D(2) job_ok_submap[OF _ assms(2)] in blast)
  show "distinct (map (\<lambda>j. doc_id (job_doc j)) (pending (w\<lparr>transcriptions := T'\<rparr>)))"
    using D(3) by simp
qed

lemma job_ok_write:
  assumes "job_ok w j"
    "doc_id (job_doc j) = i \<longrightarrow> status d' = Processing \<and> fileUrl d' = fileUrl (job_doc j)"
  shows "job_ok (w\<lparr>transcriptions := (transcriptions w)(i \<mapsto> d')\<rparr>) j"
  unfolding job_ok_def by (simp, use assms[unfolded job_ok_def] in blast)

lemma wf_write:
  assumes "wf_world w" "transcriptions w i = Some stored" "doc_id d' = i" "doc_ok d'"
    "\<forall>j \<in> set (pending w). doc_id (job_doc j) = i \<longrightarrow>
          status d' = Processing \<and> fileUrl d' = fileUrl (job_doc j)"
  shows "wf_world (w\<lparr>transcriptions := (transcriptions w)(i \<mapsto> d')\<rparr>)"
proof (rule wf_worldI)
  note D = wf_worldD[OF assms(1)]
  let ?w = "w\<lparr>transcriptions := (transcriptions w)(i \<mapsto> d')\<rparr>"
  from D(1) assms(2) have lt: "i < next_id w" by blast
  show "\<forall>k d. transcriptions ?w k = Some d \<longrightarrow> doc_id d = k \<and> k < next_id ?w \<and> doc_ok d"
    by (simp, use D(1) lt assms(3,4) in blast)
  show "\<forall>j \<in> set (pending ?w). job_ok ?w j"
    by (simp, use D(2) assms(5) job_ok_write in blast)
  show "distinct (map (\<lambda>j. doc_id (job_doc j)) (pending ?w))"
    using D(3) by simp
qed

lemma wf_upload:
  assumes "wf_world w" "uploadAndTranscribe now w req = (resp, w')"
  shows "wf_world w'"
  using assms(2)
proof (cases rule: upload_cases)
  case unchanged
  with assms(1) show ?thesis by simp
next
  case (cleaned fs)
  with assms(1) show ?thesis by (simp add: wf_files)
next
  case (accepted fl ttl src u audio d j)
  note D = wf_worldD[OF assms(1)]
  have d: "doc_id d = next_id w" "status d = Processing" "doc_ok d"
    using accepted(6,7) validateSync_new by (simp_all add: new_transcription_def)
  have old: "\<forall>k \<in> set (pending w). doc_id (job_doc k) < next_id w"
    using D(2) unfolding job_ok_def by blast
  have jn: "job_ok w' j"
    unfolding job_ok_def accepted(10) using d accepted(7,8) by simp
  have jo: "job_ok w' k" if "k \<in> set (pending w)" for k
  proof -
    from that D(2) have k: "job_ok w k" by blast
    with old that have "doc_id (job_doc k) \<noteq> next_id w" by fastforce
    with k show ?thesis unfolding job_ok_def accepted(10) by simp
  qed
  show ?thesis
  proof (rule wf_worldI)
    show "\<forall>i d'. transcriptions w' i = Some d' \<longrightarrow> doc_id d' = i \<and> i < next_id w' \<and> doc_ok d'"
      unfolding accepted(10) by (simp, use D(1) d less_Suc_eq in blast)
    show "\<forall>k \<in> set (pending w'). job_ok w' k"
    proof
      fix k assume "k \<in> set (pending w')"
      then have "k = j \<or> k \<in> set (pending w)" by (simp add: accepted(10))
      then show "job_ok w' k" using jn jo by blast
    qed
    have "next_id w \<notin> (\<lambda>j. doc_id (job_doc j)) ` set (pending w)"
      using old by fastforce
    then show "distinct (map (\<lambda>j. doc_id (job_doc j)) (pending w'))"
      using D(3) d(1) accepted(8) by (simp add: accepted(10))
  qed
qed

lemma wf_update:
  assumes "wf_world w" "updateTranscription now w req_user idp body = (resp, w')"
  shows "wf_world w'"
  using assms(2)
proof (cases rule: update_cases)
  case unchanged
  with assms(1) show ?thesis by simp
next
  case (updated i t data t')
  note D = wf_worldD[OF assms(1)]
  from D(1) updated(3) have t: "doc_id t = i" "doc_ok t" by blast+
  have same: "doc_id t' = doc_id t" "status t' = status t" "fileUrl t' = fileUrl t"
    "transcription t' = transcription t" "confidence t' = confidence t"
    by (simp_all add: updated(5) split: option.splits)
  have "wf_world (w\<lparr>transcriptions := (transcriptions w)(i \<mapsto> t')\<rparr>)"
  proof (rule wf_write[OF assms(1) updated(3)])
    show "doc_id t' = i" "doc_ok t'" using t by (simp_all add: same doc_ok_def)
    show "\<forall>j\<in>set (pending w). doc_id (job_doc j) = i \<longrightarrow>
            status t' = Processing \<and> fileUrl t' = fileUrl (job_doc j)"
      unfolding same using D(2) updated(3) unfolding job_ok_def by blast
  qed
  with updated(7) show ?thesis by simp
qed

lemma wf_delete:
  assumes "wf_world w" "deleteTranscription w req_user idp body = (resp, w')"
  shows "wf_world w'"
  using assms(2)
proof (cases rule: delete_cases)
  case unchanged
  with assms(1) show ?thesis by simp
next
  case (deleted i t u p)
  have "wf_world (w\<lparr>transcriptions := (transcriptions w)(i := None)\<rparr>)"
    by (rule wf_submap[OF assms(1)]) (simp split: if_splits)
  then have "wf_world (w\<lparr>transcriptions := (transcriptions w)(i := None)\<rparr>
                   \<lparr>files := cleanupFile (files w) (fileUrl t)\<rparr>)"
    by (rule wf_files)
  with deleted(9) show ?thesis by simp
qed

lemma deleteAccount_cases:
  assumes "deleteAccount w req_user body = (resp, w')"
  obtains
    (unchanged) "w' = w"
  | (deleted) fs us where
      "w' = w\<lparr>transcriptions := (\<lambda>i. case transcriptions w i of
                                        None \<Rightarrow> None
                                      | Some d \<Rightarrow> if userId d = p_userId req_user then None else Some d),
               files := fs, users := us\<rparr>"
proof (cases "deleteAccountSchema body")
  case None
  with assms have "w' = w" by (simp add: deleteAccount_def)
  then show ?thesis by (rule unchanged)
next
  case (Some pw)
  note pw = this
  show ?thesis
  proof (cases "findById (users w) (p_userId req_user)")
    case None
    with assms pw have "w' = w" by (simp add: deleteAccount_def)
    then show ?thesis by (rule unchanged)
  next
    case (Some u)
    show ?thesis
    proof (cases "bcrypt_compare pw (password u)")
      case False
      with assms pw Some have "w' = w" by (simp add: deleteAccount_def)
      then show ?thesis by (rule unchanged)
    next
      case True
      with assms pw Some show ?thesis
        by (intro deleted[where fs = "fst (delete_files (find_by_user w (p_userId req_user)) (files w) 0)"
              and us = "filter (\<lambda>x. user_id x \<noteq> p_userId req_user) (users w)"])
           (auto simp: deleteAccount_def Let_def split: prod.splits)
    qed
  qed
qed

lemma wf_deleteAccount:
  assumes "wf_world w" "deleteAccount w req_user body = (resp, w')"
  shows "wf_world w'"
  using assms(2)
proof (cases rule: deleteAccount_cases)
  case unchanged
  with assms(1) show ?thesis by simp
next
  case (deleted fs us)
  let ?T = "\<lambda>i. case transcriptions w i of None \<Rightarrow> None
                 | Some d \<Rightarrow> if userId d = p_userId req_user then None else Some d"
  have "wf_world (w\<lparr>transcriptions := ?T\<rparr>)"
    by (rule wf_submap[OF assms(1)]) (simp split: option.splits if_splits)
  then have "wf_world (w\<lparr>transcriptions := ?T\<rparr>\<lparr>files := fs\<rparr>\<lparr>users := us\<rparr>)"
    by (intro wf_users wf_files)
  with deleted show ?thesis by simp
qed

subsection \<open>Settling a promise\<close>

lemma validateSync_status: "validateSync (d\<lparr>status := s\<rparr>) = validateSync d"
  by (simp add: validateSync_def)

lemma save_existing_None:
  "save_existing now w d full = None \<longleftrightarrow> \<not> validateSync d \<or> transcriptions w (doc_id d) = None"
  by (simp add: save_existing_def split: option.splits)

lemma on_rejected_after_failed_save:
  assumes "save_existing now w d True = None"
  shows "on_rejected now w d True = w"
proof -
  from assms have "save_existing now w (d\<lparr>status := Failed\<rparr>) True = None"
    by (simp add: save_existing_None validateSync_status)
  then show ?thesis by (simp add: on_rejected_def)
qed

lemma settle_cases:
  fixes now w j dg
  defines "i \<equiv> doc_id (job_doc j)"
  defines "w0 \<equiv> w\<lparr>pending := filter (\<lambda>k. doc_id (job_doc k) \<noteq> doc_id (job_doc j)) (pending w)\<rparr>"
  assumes ok: "validateSync (job_doc j)"
  obtains
    (noop) "settle now w j dg = w0" "transcriptions w i = None \<or> \<not> isl (job_promise j dg)"
  | (failed) err stored where
      "job_promise j dg = Inl err" "transcriptions w i = Some stored"
      "settle now w j dg =
         w0\<lparr>transcriptions := (transcriptions w)(i \<mapsto> stored\<lparr>status := Failed, updatedAt := now\<rparr>),
            files := cleanupFile (files w) (fileUrl (job_doc j))\<rparr>"
  | (completed) r stored where
      "job_promise j dg = Inr r" "transcriptions w i = Some stored"
      "0 \<le> r_confidence r" "r_confidence r \<le> 1"
      "settle now w j dg =
         w0\<lparr>transcriptions := (transcriptions w)(i \<mapsto>
               stored\<lparr>transcription := r_transcription r, confidence := r_confidence r,
                      duration := (if r_duration r \<noteq> 0 then r_duration r else real (job_duration j)),
                      status := Completed, metadata := Some (cast_metadata (r_metadata r)),
                      updatedAt := now\<rparr>)\<rparr>"
proof (cases "job_promise j dg")
  case (Inl err)
  show ?thesis
  proof (cases "transcriptions w i")
    case None
    with Inl ok have "settle now w j dg = w0"
      by (simp add: settle_def on_rejected_def save_existing_def validateSync_status w0_def i_def)
    with None show ?thesis by (intro noop) simp_all
  next
    case (Some stored)
    with Inl ok have "settle now w j dg =
         w0\<lparr>transcriptions := (transcriptions w)(i \<mapsto> stored\<lparr>status := Failed, updatedAt := now\<rparr>),
            files := cleanupFile (files w) (fileUrl (job_doc j))\<rparr>"
      by (simp add: settle_def on_rejected_def save_existing_def validateSync_status w0_def i_def)
    with Inl Some show ?thesis by (intro failed)
  qed
next
  case (Inr r)
  define d where "d = (job_doc j)\<lparr>transcription := r_transcription r, confidence := r_confidence r,
                      duration := (if r_duration r \<noteq> 0 then r_duration r else real (job_duration j)),
                      status := Completed, metadata := Some (cast_metadata (r_metadata r))\<rparr>"
  have settle: "settle now w j dg =
      (case save_existing now w0 d True of Some w' \<Rightarrow> w' | None \<Rightarrow> on_rejected now w0 d True)"
    unfolding settle_def on_fulfilled_def Let_def d_def w0_def using Inr by simp
  have did: "doc_id d = i" by (simp add: d_def i_def)
  have vd: "validateSync d \<longleftrightarrow> 0 \<le> r_confidence r \<and> r_confidence r \<le> 1"
    using ok by (simp add: validateSync_def d_def)
  show ?thesis
  proof (cases "save_existing now w0 d True")
    case None
    with settle have "settle now w j dg = w0"
      by (simp add: on_rejected_after_failed_save)
    with Inr show ?thesis by (intro noop) simp_all
  next
    case (Some w')
    then have v: "validateSync d" and ex: "transcriptions w i \<noteq> None"
      by (auto simp: save_existing_def did w0_def split: if_splits option.splits)
    then obtain stored where stored: "transcriptions w i = Some stored" by blast
    with Some v have "w' = w0\<lparr>transcriptions := (transcriptions w)(i \<mapsto>
               stored\<lparr>transcription := r_transcription r, confidence := r_confidence r,
                      duration := (if r_duration r \<noteq> 0 then r_duration r else real (job_duration j)),
                      status := Completed, metadata := Some (cast_metadata (r_metadata r)),
                      updatedAt := now\<rparr>)\<rparr>"
      by (simp add: save_existing_def did w0_def) (auto simp: d_def)
    with settle Some Inr stored v vd show ?thesis by (intro completed) simp_all
  qed
qed

lemma wf_pending_filter:
  assumes "wf_world w"
  shows "wf_world (w\<lparr>pending := filter P (pending w)\<rparr>)"
proof (rule wf_worldI)
  note D = wf_worldD[OF assms]
  let ?w = "w\<lparr>pending := filter P (pending w)\<rparr>"
  show "\<forall>i d. transcriptions ?w i = Some d \<longrightarrow> doc_id d = i \<and> i < next_id ?w \<and> doc_ok d"
    by (simp, use D(1) in blast)
  have "job_ok ?w k = job_ok w k" for k by (simp add: job_ok_def)
  then show "\<forall>k \<in> set (pending ?w). job_ok ?w k"
    by (simp, use D(2) in blast)
  show "distinct (map (\<lambda>j. doc_id (job_doc j)) (pending ?w))"
    using D(3) by (simp add: distinct_map_filter)
qed

lemma wf_settle:
  assumes "wf_world w" "j \<in> set (pending w)"
  shows "wf_world (settle now w j dg)"
proof -
  note D = wf_worldD[OF assms(1)]
  let ?i = "doc_id (job_doc j)"
  let ?w0 = "w\<lparr>pending := filter (\<lambda>k. doc_id (job_doc k) \<noteq> ?i) (pending w)\<rparr>"
  from D(2) assms(2) have j: "job_ok w j" by blast
  then have ok: "validateSync (job_doc j)" by (simp add: job_ok_def)
  have w0: "wf_world ?w0" by (rule wf_pending_filter[OF assms(1)])
  have none: "\<forall>k \<in> set (pending ?w0). doc_id (job_doc k) = ?i \<longrightarrow> P k" for P
    by simp
  from ok show ?thesis
  proof (cases rule: settle_cases[where now = now and w = w and j = j and dg = dg])
    case noop
    with w0 show ?thesis by simp
  next
    case (failed err stored)
    from j failed(2) have st: "status stored = Processing" by (simp add: job_ok_def)
    from D(1) failed(2) have s: "doc_id stored = ?i" "doc_ok stored" by blast+
    let ?d = "stored\<lparr>status := Failed, updatedAt := now\<rparr>"
    have "wf_world (?w0\<lparr>transcriptions := (transcriptions ?w0)(?i \<mapsto> ?d)\<rparr>)"
    proof (rule wf_write[OF w0])
      show "transcriptions ?w0 ?i = Some stored" using failed(2) by simp
      show "doc_id ?d = ?i" using s by simp
      show "doc_ok ?d" using s st by (simp add: doc_ok_def)
      show "\<forall>k \<in> set (pending ?w0). doc_id (job_doc k) = ?i \<longrightarrow>
              status ?d = Processing \<and> fileUrl ?d = fileUrl (job_doc k)"
        by (rule none)
    qed
    then have "wf_world (?w0\<lparr>transcriptions := (transcriptions ?w0)(?i \<mapsto> ?d)\<rparr>
                 \<lparr>files := cleanupFile (files w) (fileUrl (job_doc j))\<rparr>)"
      by (rule wf_files)
    with failed(3) show ?thesis by simp
  next
    case (completed r stored)
    from D(1) completed(2) have s: "doc_id stored = ?i" "doc_ok stored" by blast+
    let ?d = "stored\<lparr>transcription := r_transcription r, confidence := r_confidence r,
                      duration := (if r_duration r \<noteq> 0 then r_duration r else real (job_duration j)),
                      status := Completed, metadata := Some (cast_metadata (r_metadata r)),
                      updatedAt := now\<rparr>"
    have "wf_world (?w0\<lparr>transcriptions := (transcriptions ?w0)(?i \<mapsto> ?d)\<rparr>)"
    proof (rule wf_write[OF w0])
      show "transcriptions ?w0 ?i = Some stored" using completed(2) by simp
      show "doc_id ?d = ?i" using s by simp
      show "doc_ok ?d" using completed(3,4) by (simp add: doc_ok_def)
      show "\<forall>k \<in> set (pending ?w0). doc_id (job_doc k) = ?i \<longrightarrow>
              status ?d = Processing \<and> fileUrl ?d = fileUrl (job_doc k)"
        by (rule none)
    qed
    with completed(5) show ?thesis by simp
  qed
qed

lemma run_wf: "run tr w \<Longrightarrow> wf_world w"
proof (induction rule: run.induct)
  case (start key)
  show ?case by (rule wf_initial)
next
  case (users tr w us)
  then show ?case by (simp add: wf_users)
next
  case (stored tr w p content)
  then show ?case by (simp add: wf_files)
next
  case (upload tr w now req resp w')
  then show ?case by (blast intro: wf_upload)
next
  case (settled tr w j now dg)
  then show ?case by (blast intro: wf_settle)
next
  case (update tr w now req_user idp body resp w')
  then show ?case by (blast intro: wf_update)
next
  case (delete tr w req_user idp body resp w')
  then show ?case by (blast intro: wf_delete)
next
  case (delete_account tr w req_user body resp w')
  then show ?case by (blast intro: wf_deleteAccount)
qed

subsection \<open>The sample run\<close>

lemmas sample_defs = ann_def bob_def ann_payload_def bob_payload_def clip_def clip_bytes_def
  w_start_def w_users_def w_ready_def upload_req_def initial_def

lemmas string_defs = toLowerCase_def toLowerChar_def trim_def isSpace_def extname_def
  isAlpha_def isAlnum_def email_regex_def

lemma upload_sample:
  "uploadAndTranscribe 1000 w_ready upload_req =
     (respond 201 (UploadAccepted 0 ''New Transcription'' Processing ''clip.wav'' 4 1 1000),
      w_ready\<lparr>transcriptions := [0 \<mapsto> bob_doc], next_id := 1, pending := [bob_job]\<rparr>)"
proof -
  have v: "valid (validateAudioFile (Some clip))"
    by (simp add: validateAudioFile_def allowedExtensions_def clip_def string_defs)
  have d: "bob_doc = new_transcription (next_id w_ready) 1000 bob ''New Transcription'' Upload clip
             clip_bytes (getAudioDuration (files w_ready) (f_path clip))"
    by (simp add: bob_doc_def sample_defs getAudioDuration_def)
  have vs: "validateSync bob_doc"
    by (simp add: bob_doc_def validateSync_def new_transcription_def string_defs sample_defs)
  have j: "bob_job = \<lparr>job_doc = bob_doc,
             job_duration = getAudioDuration (files w_ready) (f_path clip),
             job_promise = (\<lambda>dg. if Upload = Recording
                then transcribeRecordingOptimized (api_key w_ready) dg (files w_ready) (f_path clip)
                       (mimetype clip)
                else deepgramService_transcribeFile (api_key w_ready) dg (files w_ready) (f_path clip))\<rparr>"
    by (simp add: bob_job_def sample_defs getAudioDuration_def)
  have "uploadAndTranscribe 1000 w_ready upload_req =
     (respond 201 (UploadAccepted (next_id w_ready) (title bob_doc) Processing (originalFilename bob_doc)
         (fileSize bob_doc) (duration bob_doc) (createdAt bob_doc)),
      w_ready\<lparr>transcriptions := (transcriptions w_ready)(next_id w_ready \<mapsto> bob_doc),
              next_id := Suc (next_id w_ready), pending := pending w_ready @ [bob_job]\<rparr>)"
  proof (rule upload_accept[OF _ v _ _ _ d vs j])
    show "up_file upload_req = Some clip" by (simp add: upload_req_def)
    show "createTranscriptionSchema (up_body upload_req) = Some (''New Transcription'', Upload)"
      by (simp add: createTranscriptionSchema_def upload_req_def)
    show "findById (users w_ready) (p_userId (up_user upload_req)) = Some bob"
      by (simp add: findById_def sample_defs)
    show "files w_ready (f_path clip) = Some clip_bytes"
      by (simp add: sample_defs)
  qed
  also have "\<dots> = (respond 201 (UploadAccepted 0 ''New Transcription'' Processing ''clip.wav'' 4 1 1000),
      w_ready\<lparr>transcriptions := [0 \<mapsto> bob_doc], next_id := 1, pending := [bob_job]\<rparr>)"
    by (simp add: bob_doc_def new_transcription_def string_defs sample_defs)
  finally show ?thesis .
qed

lemma w_uploaded_eq:
  "w_uploaded = w_ready\<lparr>transcriptions := [0 \<mapsto> bob_doc], next_id := 1, pending := [bob_job]\<rparr>"
  by (simp add: w_uploaded_def upload_sample)

lemma the_job_eq: "the_job = bob_job"
  by (simp add: the_job_def w_uploaded_eq)

lemma bob_doc_fields:
  "doc_id bob_doc = 0" "status bob_doc = Processing" "fileUrl bob_doc = ''uploads/audio-1.wav''"
  "validateSync bob_doc" "userId bob_doc = 2"
  by (simp_all add: bob_doc_def validateSync_def new_transcription_def string_defs sample_defs)

lemma run_uploaded:
  "run [EvUsers, EvStored ''uploads/audio-1.wav'',
        EvUpload (respond 201 (UploadAccepted 0 ''New Transcription'' Processing ''clip.wav'' 4 1 1000))]
     w_uploaded"
proof -
  have "run [] w_start" unfolding w_start_def by (rule run.start)
  from run.users[OF this, of "[ann, bob]"] have "run [EvUsers] w_users"
    by (simp add: w_users_def)
  from run.stored[OF this, of "''uploads/audio-1.wav''" clip_bytes]
  have "run [EvUsers, EvStored ''uploads/audio-1.wav''] w_ready"
    by (simp add: w_ready_def)
  from run.upload[OF this upload_sample] show ?thesis
    by (simp add: w_uploaded_eq)
qed

lemma bob_promise:
  "job_promise bob_job dg = transcribeFile dg (files w_ready) ''uploads/audio-1.wav''"
  by (simp add: bob_job_def deepgramService_transcribeFile_def getInstance_def sample_defs)

lemma w_silent_record:
  "transcriptions w_silent 0 =
     Some (bob_doc\<lparr>transcription := [], confidence := 0, duration := 1, status := Completed,
                   metadata := Some \<lparr>deepgramRequestId = None, modelInfo = None,
                                      processingTime = Some 0\<rparr>,
                   updatedAt := 2000\<rparr>)"
proof -
  have p: "job_promise bob_job silent_remote =
      Inr \<lparr>r_transcription = [], r_confidence = 0, r_duration = 0,
           r_metadata = \<lparr>rm_deepgramRequestId = None, rm_modelInfo = None, rm_processingTime = 0,
                         rm_language = None, rm_channels = None\<rparr>\<rparr>"
    by (simp add: bob_promise transcribeFile_def rethrow_def extract_result_def silent_remote_def
          silence_def first_alternative_def or_zero_def or_empty_def sample_defs)
  have j: "job_doc bob_job = bob_doc" "job_duration bob_job = 1" by (simp_all add: bob_job_def)
  show ?thesis
    unfolding w_silent_def the_job_eq w_uploaded_eq settle_def Let_def p on_fulfilled_def j
    by (simp add: save_existing_def validateSync_def bob_doc_fields[unfolded validateSync_def]
          cast_metadata_def j)
qed

lemma bob_promise_good:
  "job_promise bob_job good_remote =
      Inr \<lparr>r_transcription = ''hello world'', r_confidence = 98 / 100, r_duration = 0,
           r_metadata = \<lparr>rm_deepgramRequestId = None, rm_modelInfo = None, rm_processingTime = 0,
                         rm_language = None, rm_channels = None\<rparr>\<rparr>"
  by (simp add: bob_promise transcribeFile_def rethrow_def extract_result_def good_remote_def
        spoken_def first_alternative_def or_zero_def or_empty_def sample_defs)

lemma w_spoken_record:
  "transcriptions w_spoken 0 =
     Some (bob_doc\<lparr>transcription := ''hello world'', confidence := 98 / 100, duration := 1,
                   status := Completed,
                   metadata := Some \<lparr>deepgramRequestId = None, modelInfo = None,
                                      processingTime = Some 0\<rparr>,
                   updatedAt := 2000\<rparr>)"
proof -
  have j: "job_doc bob_job = bob_doc" "job_duration bob_job = 1" by (simp_all add: bob_job_def)
  show ?thesis
    unfolding w_spoken_def the_job_eq w_uploaded_eq settle_def Let_def bob_promise_good
      on_fulfilled_def j
    by (simp add: save_existing_def validateSync_def bob_doc_fields[unfolded validateSync_def]
          cast_metadata_def j)
qed

lemma w_down_state:
  "transcriptions w_down 0 = Some (bob_doc\<lparr>status := Failed, updatedAt := 2000\<rparr>)"
  "files w_down ''uploads/audio-1.wav'' = None"
proof -
  have p: "job_promise bob_job down_remote = Inl ''Transcription failed: ECONNRESET''"
    by (simp add: bob_promise transcribeFile_def rethrow_def extract_result_def down_remote_def
          sample_defs)
  have j: "job_doc bob_job = bob_doc" by (simp add: bob_job_def)
  have eq: "w_down = w_ready\<lparr>transcriptions := [0 \<mapsto> bob_doc\<lparr>status := Failed, updatedAt := 2000\<rparr>],
                          next_id := 1, pending := [],
                          files := cleanupFile (files w_ready) ''uploads/audio-1.wav''\<rparr>"
    unfolding w_down_def the_job_eq w_uploaded_eq settle_def Let_def p on_rejected_def j
    by (simp add: save_existing_def validateSync_status bob_doc_fields j)
  show "transcriptions w_down 0 = Some (bob_doc\<lparr>status := Failed, updatedAt := 2000\<rparr>)"
    "files w_down ''uploads/audio-1.wav'' = None"
    unfolding eq by (simp_all add: cleanupFile_def sample_defs)
qed

subsection \<open>Audio ingest\<close>

text \<open>
  C6.  \<open>validateAudioFile\<close> returns a value on every input, and that value is the
  error result exactly when no file is given, the size exceeds 50 MiB (52428800
  bytes), or the lower-cased extension of the file name is none of \<^verbatim>\<open>.mp3\<close>, \<^verbatim>\<open>.wav\<close>,
  \<^verbatim>\<open>.webm\<close>, \<^verbatim>\<open>.mp4\<close>, \<^verbatim>\<open>.m4a\<close>, \<^verbatim>\<open>.aac\<close>, \<^verbatim>\<open>.ogg\<close>, \<^verbatim>\<open>.opus\<close>, \<^verbatim>\<open>.flac\<close>; otherwise it is
  the valid result.
\<close>

theorem validateAudioFile_exact:
  "((\<exists>msg. validateAudioFile file = \<lparr>valid = False, error = Some msg\<rparr>) \<longleftrightarrow>
      (case file of
         None \<Rightarrow> True
       | Some f \<Rightarrow> 52428800 < f_size f \<or>
           toLowerCase (extname (originalname f)) \<notin>
             {''.mp3'', ''.wav'', ''.webm'', ''.mp4'', ''.m4a'', ''.aac'', ''.ogg'', ''.opus'', ''.flac''}))
   \<and> (validateAudioFile file = \<lparr>valid = True, error = None\<rparr> \<longleftrightarrow>
      (case file of
         None \<Rightarrow> False
       | Some f \<Rightarrow> f_size f \<le> 52428800 \<and>
           toLowerCase (extname (originalname f)) \<in>
             {''.mp3'', ''.wav'', ''.webm'', ''.mp4'', ''.m4a'', ''.aac'', ''.ogg'', ''.opus'', ''.flac''}))"
  by (simp add: validateAudioFile_def allowedExtensions_def Let_def split: option.splits)

theorem validateAudioFile_exact_witness:
  "validateAudioFile (Some clip) = \<lparr>valid = True, error = None\<rparr> \<and>
   (\<exists>msg. validateAudioFile (Some (clip\<lparr>originalname := ''.mp3''\<rparr>)) = \<lparr>valid = False, error = Some msg\<rparr>) \<and>
   (\<exists>msg. validateAudioFile (Some (clip\<lparr>originalname := ''notes.txt''\<rparr>)) = \<lparr>valid = False, error = Some msg\<rparr>) \<and>
   (\<exists>msg. validateAudioFile (Some (clip\<lparr>f_size := 52428801\<rparr>)) = \<lparr>valid = False, error = Some msg\<rparr>) \<and>
   validateAudioFile (Some (clip\<lparr>originalname := ''Talk.Final.MP3'', f_size := 52428800\<rparr>))
     = \<lparr>valid = True, error = None\<rparr>"
  using validateAudioFile_exact [of "Some clip"]
    validateAudioFile_exact [of "Some (clip\<lparr>originalname := ''.mp3''\<rparr>)"]
    validateAudioFile_exact [of "Some (clip\<lparr>originalname := ''notes.txt''\<rparr>)"]
    validateAudioFile_exact [of "Some (clip\<lparr>f_size := 52428801\<rparr>)"]
    validateAudioFile_exact [of "Some (clip\<lparr>originalname := ''Talk.Final.MP3'', f_size := 52428800\<rparr>)"]
  by (simp add: clip_def toLowerCase_def toLowerChar_def extname_def)

text \<open>
  The extension of a plain file name: for a name \<open>stem.ext\<close> without slashes, whose
  stem is not empty and whose \<open>ext\<close> is not empty and has no dot, \<open>extname\<close> is
  \<open>.ext\<close>.
\<close>

lemma extname_plain:
  assumes "stem \<noteq> []" "e \<noteq> []" "CHR ''/'' \<notin> set stem" "CHR ''/'' \<notin> set e" "CHR ''.'' \<notin> set e"
  shows "extname (stem @ CHR ''.'' # e) = CHR ''.'' # e"
proof -
  let ?r = "rev e @ CHR ''.'' # rev stem"
  from assms(2) obtain x xs where re: "rev e = x # xs" by (cases "rev e") auto
  with assms(4) have "x \<noteq> CHR ''/''" by (metis list.set_intros(1) set_rev)
  then have dw: "dropWhile (\<lambda>c. c = CHR ''/'') ?r = ?r" by (simp add: re)
  have tw: "takeWhile (\<lambda>c. c \<noteq> CHR ''/'') ?r = ?r"
    using assms(3,4) by (intro takeWhile_eq_all_conv[THEN iffD2]) auto
  have te: "takeWhile (\<lambda>c. c \<noteq> CHR ''.'') ?r = rev e"
    using assms(5) by (subst takeWhile_append2) auto
  show ?thesis
    using assms(1,2) by (simp add: extname_def Let_def dw tw te)
qed

subsection \<open>Upload: rejection\<close>

text \<open>
  C5.  When the request has no file, or its file fails \<open>validateAudioFile\<close>, the upload
  handler answers 400 with a failure message and leaves the whole state as it was: no
  document is created and no task is started.
\<close>

theorem upload_rejects_invalid_file:
  assumes "up_file req = None \<or> \<not> valid (validateAudioFile (up_file req))"
  shows "\<exists>msg. uploadAndTranscribe now w req = (respond 400 (Failure msg), w)"
  using assms
  by (auto simp add: uploadAndTranscribe_def Let_def split: option.splits)

theorem upload_rejects_invalid_file_witness:
  "\<not> valid (validateAudioFile (up_file (upload_req\<lparr>up_file := Some (clip\<lparr>originalname := ''notes.txt''\<rparr>)\<rparr>))) \<and>
   (\<exists>msg. uploadAndTranscribe 1000 w_ready (upload_req\<lparr>up_file := Some (clip\<lparr>originalname := ''notes.txt''\<rparr>)\<rparr>)
      = (respond 400 (Failure msg), w_ready))"
proof -
  have h: "\<not> valid (validateAudioFile (up_file (upload_req\<lparr>up_file := Some (clip\<lparr>originalname := ''notes.txt''\<rparr>)\<rparr>)))"
    by (simp add: validateAudioFile_def allowedExtensions_def upload_req_def clip_def
          toLowerCase_def toLowerChar_def extname_def)
  from h upload_rejects_invalid_file [of "upload_req\<lparr>up_file := Some (clip\<lparr>originalname := ''notes.txt''\<rparr>)\<rparr>" 1000 w_ready]
  show ?thesis by blast
qed

subsection \<open>Provider client\<close>

lemma extract_result_fails: "isl (extract_result resp) \<longleftrightarrow> provider_failure resp"
  by (simp add: extract_result_def provider_failure_def Let_def split: dg_response.splits option.splits)

lemma isl_rethrow: "isl (rethrow r) = isl r"
  by (simp add: rethrow_def split: sum.splits)

lemma rethrow_Inr: "rethrow r = Inr v \<longleftrightarrow> r = Inr v"
  by (simp add: rethrow_def split: sum.splits)

lemma extract_result_values:
  "extract_result resp = Inr r \<Longrightarrow>
     r_confidence r = (case provider_confidence resp of None \<Rightarrow> 0 | Some c \<Rightarrow> c) \<and>
     r_duration r = (case provider_duration resp of None \<Rightarrow> 0 | Some c \<Rightarrow> c)"
  by (auto simp add: extract_result_def provider_confidence_def provider_duration_def or_zero_def Let_def
        split: dg_response.splits option.splits)

text \<open>
  C7 does not hold as stated for \<open>transcribeFile\<close>: on a path with no file the call
  fails although the remote service, had it been called, answers with a usable
  alternative and no error.
\<close>

theorem transcribeFile_unreadable_fails:
  "isl (transcribeFile good_remote Map.empty ''uploads/audio-1.wav'') \<and>
   \<not> provider_failure (good_remote clip_bytes None)"
  by (simp add: transcribeFile_def rethrow_def good_remote_def provider_failure_def
        first_alternative_def spoken_def)

text \<open>
  C7, amended.  \<open>transcribeBuffer\<close> fails exactly when the remote call errors or its
  response has no usable alternative; \<open>transcribeFile\<close> fails exactly when the file
  cannot be read or the remote call on its bytes fails in that way.  When either
  succeeds, confidence and duration are the numbers the provider reported, and 0 where
  it reported none.
\<close>

theorem transcribe_fails_exactly:
  "(isl (transcribeBuffer dg audio mime) \<longleftrightarrow> provider_failure (dg audio (Some mime))) \<and>
   (isl (transcribeFile dg fs filePath) \<longleftrightarrow>
      (case fs filePath of None \<Rightarrow> True | Some bs \<Rightarrow> provider_failure (dg bs None))) \<and>
   (\<forall>r. transcribeBuffer dg audio mime = Inr r \<longrightarrow>
      r_confidence r = (case provider_confidence (dg audio (Some mime)) of None \<Rightarrow> 0 | Some c \<Rightarrow> c) \<and>
      r_duration r = (case provider_duration (dg audio (Some mime)) of None \<Rightarrow> 0 | Some c \<Rightarrow> c)) \<and>
   (\<forall>r bs. fs filePath = Some bs \<and> transcribeFile dg fs filePath = Inr r \<longrightarrow>
      r_confidence r = (case provider_confidence (dg bs None) of None \<Rightarrow> 0 | Some c \<Rightarrow> c) \<and>
      r_duration r = (case provider_duration (dg bs None) of None \<Rightarrow> 0 | Some c \<Rightarrow> c))"
proof (intro conjI allI impI)
  show "isl (transcribeBuffer dg audio mime) \<longleftrightarrow> provider_failure (dg audio (Some mime))"
    by (simp add: transcribeBuffer_def isl_rethrow extract_result_fails)
  show "isl (transcribeFile dg fs filePath) \<longleftrightarrow>
      (case fs filePath of None \<Rightarrow> True | Some bs \<Rightarrow> provider_failure (dg bs None))"
    by (simp add: transcribeFile_def isl_rethrow extract_result_fails split: option.splits)
next
  fix r assume "transcribeBuffer dg audio mime = Inr r"
  then have e: "extract_result (dg audio (Some mime)) = Inr r"
    by (simp add: transcribeBuffer_def rethrow_Inr)
  from extract_result_values[OF e]
  show "r_confidence r = (case provider_confidence (dg audio (Some mime)) of None \<Rightarrow> 0 | Some c \<Rightarrow> c)"
    and "r_duration r = (case provider_duration (dg audio (Some mime)) of None \<Rightarrow> 0 | Some c \<Rightarrow> c)"
    by simp_all
next
  fix r bs assume "fs filePath = Some bs \<and> transcribeFile dg fs filePath = Inr r"
  then have e: "extract_result (dg bs None) = Inr r"
    by (auto simp: transcribeFile_def rethrow_Inr)
  from extract_result_values[OF e]
  show "r_confidence r = (case provider_confidence (dg bs None) of None \<Rightarrow> 0 | Some c \<Rightarrow> c)"
    and "r_duration r = (case provider_duration (dg bs None) of None \<Rightarrow> 0 | Some c \<Rightarrow> c)"
    by simp_all
qed

theorem transcribe_fails_exactly_witness:
  "isl (transcribeBuffer down_remote clip_bytes ''audio/wav'') \<and>
   isl (transcribeFile good_remote Map.empty ''uploads/audio-1.wav'') \<and>
   \<not> isl (transcribeFile silent_remote (files w_ready) ''uploads/audio-1.wav'') \<and>
   r_confidence (projr (transcribeBuffer silent_remote clip_bytes ''audio/wav'')) = 0 \<and>
   r_duration (projr (transcribeBuffer silent_remote clip_bytes ''audio/wav'')) = 0 \<and>
   r_confidence (projr (transcribeFile good_remote (files w_ready) ''uploads/audio-1.wav'')) = 98 / 100"
  using transcribe_fails_exactly [of down_remote clip_bytes "''audio/wav''" "files w_ready" "''uploads/audio-1.wav''"]
    transcribe_fails_exactly [of good_remote clip_bytes "''audio/wav''" Map.empty "''uploads/audio-1.wav''"]
    transcribe_fails_exactly [of silent_remote clip_bytes "''audio/wav''" "files w_ready" "''uploads/audio-1.wav''"]
  by (simp add: down_remote_def silent_remote_def good_remote_def provider_failure_def
        first_alternative_def silence_def spoken_def transcribeBuffer_def transcribeFile_def
        rethrow_def extract_result_def or_zero_def or_empty_def Let_def
        w_ready_def w_users_def w_start_def initial_def)

subsection \<open>Transcription lifecycle\<close>

lemma cleanupFile_removes: "cleanupFile fs p p = None"
  by (simp add: cleanupFile_def)

lemma run_job_ok:
  assumes "run tr w" "j \<in> set (pending w)"
  shows "job_ok w j"
  using wf_worldD(2)[OF run_wf[OF assms(1)]] assms(2) by blast

text \<open>
  C2 does not hold as stated: in the sample run the remote service answers with an
  alternative whose transcript is empty, and the record ends completed with an empty
  transcript.
\<close>

theorem completed_with_empty_transcript:
  "run [EvUsers, EvStored ''uploads/audio-1.wav'',
        EvUpload (respond 201 (UploadAccepted 0 ''New Transcription'' Processing ''clip.wav'' 4 1 1000)),
        EvSettled 0] w_silent \<and>
   map_option status (transcriptions w_silent 0) = Some Completed \<and>
   map_option transcription (transcriptions w_silent 0) = Some []"
proof -
  have "the_job \<in> set (pending w_uploaded)"
    by (simp add: the_job_eq w_uploaded_eq)
  from run.settled[OF run_uploaded this, of 2000 silent_remote]
  have "run [EvUsers, EvStored ''uploads/audio-1.wav'',
        EvUpload (respond 201 (UploadAccepted 0 ''New Transcription'' Processing ''clip.wav'' 4 1 1000)),
        EvSettled 0] w_silent"
    by (simp add: w_silent_def the_job_eq bob_job_def bob_doc_fields)
  then show ?thesis by (simp add: w_silent_record)
qed

text \<open>
  C2, amended.  In every state a run reaches, a stored record that is processing or
  failed has an empty transcript, and every stored record has a confidence between 0
  and 1.  When the provider call of a pending task resolves and the task's record is
  completed afterwards, the record holds the transcript and the confidence the
  provider client returned (the transcript may be empty), and that confidence lies
  between 0 and 1.
\<close>

theorem transcript_empty_unless_completed:
  assumes "run tr w"
  shows "(\<forall>i d. transcriptions w i = Some d \<longrightarrow>
            (status d = Processing \<or> status d = Failed \<longrightarrow> transcription d = []) \<and>
            0 \<le> confidence d \<and> confidence d \<le> 1) \<and>
         (\<forall>j dg now r d'.
            j \<in> set (pending w) \<and> job_promise j dg = Inr r \<and>
            transcriptions (settle now w j dg) (doc_id (job_doc j)) = Some d' \<and>
            status d' = Completed \<longrightarrow>
            transcription d' = r_transcription r \<and> confidence d' = r_confidence r \<and>
            0 \<le> r_confidence r \<and> r_confidence r \<le> 1)"
proof (intro conjI allI impI)
  fix i d assume d: "transcriptions w i = Some d"
  with wf_worldD(1)[OF run_wf[OF assms]] have ok: "doc_ok d" by blast
  then show "0 \<le> confidence d" "confidence d \<le> 1" by (simp_all add: doc_ok_def)
  assume "status d = Processing \<or> status d = Failed"
  with ok show "transcription d = []" by (auto simp: doc_ok_def)
next
  fix j dg now r d'
  assume a: "j \<in> set (pending w) \<and> job_promise j dg = Inr r \<and>
            transcriptions (settle now w j dg) (doc_id (job_doc j)) = Some d' \<and>
            status d' = Completed"
  then have j: "job_ok w j" using run_job_ok[OF assms] by blast
  then have ok: "validateSync (job_doc j)" by (simp add: job_ok_def)
  from ok have "transcription d' = r_transcription r \<and> confidence d' = r_confidence r \<and>
            0 \<le> r_confidence r \<and> r_confidence r \<le> 1"
  proof (cases rule: settle_cases[where now = now and w = w and j = j and dg = dg])
    case noop
    with a have "transcriptions w (doc_id (job_doc j)) = Some d'" by simp
    with j have "status d' = Processing" by (simp add: job_ok_def)
    with a show ?thesis by simp
  next
    case (failed err stored)
    with a show ?thesis by simp
  next
    case (completed r' stored)
    with a show ?thesis by auto
  qed
  then show "transcription d' = r_transcription r" "confidence d' = r_confidence r"
    "0 \<le> r_confidence r" "r_confidence r \<le> 1"
    by simp_all
qed

theorem transcript_empty_unless_completed_witness:
  "run [EvUsers, EvStored ''uploads/audio-1.wav'',
        EvUpload (respond 201 (UploadAccepted 0 ''New Transcription'' Processing ''clip.wav'' 4 1 1000))]
     w_uploaded \<and>
   transcriptions w_uploaded 0 = Some bob_doc \<and> status bob_doc = Processing \<and>
   transcription bob_doc = [] \<and> 0 \<le> confidence bob_doc \<and> confidence bob_doc \<le> 1 \<and>
   the_job \<in> set (pending w_uploaded) \<and>
   map_option status (transcriptions w_spoken 0) = Some Completed \<and>
   map_option transcription (transcriptions w_spoken 0) = Some ''hello world'' \<and>
   map_option confidence (transcriptions w_spoken 0) = Some (98 / 100)"
proof -
  note T = transcript_empty_unless_completed [OF run_uploaded]
  have r: "transcriptions w_uploaded 0 = Some bob_doc" by (simp add: w_uploaded_eq)
  from T r have a: "transcription bob_doc = [] \<and> 0 \<le> confidence bob_doc \<and> confidence bob_doc \<le> 1"
    using bob_doc_fields(2) by blast
  have j: "the_job \<in> set (pending w_uploaded)" by (simp add: the_job_eq w_uploaded_eq)
  have i: "doc_id (job_doc the_job) = 0" by (simp add: the_job_eq bob_job_def bob_doc_fields)
  let ?d = "bob_doc\<lparr>transcription := ''hello world'', confidence := 98 / 100, duration := 1,
                   status := Completed,
                   metadata := Some \<lparr>deepgramRequestId = None, modelInfo = None,
                                      processingTime = Some 0\<rparr>,
                   updatedAt := 2000\<rparr>"
  have s: "transcriptions (settle 2000 w_uploaded the_job good_remote) (doc_id (job_doc the_job))
             = Some ?d"
    using w_spoken_record by (simp add: w_spoken_def i)
  have p: "job_promise the_job good_remote =
      Inr \<lparr>r_transcription = ''hello world'', r_confidence = 98 / 100, r_duration = 0,
           r_metadata = \<lparr>rm_deepgramRequestId = None, rm_modelInfo = None, rm_processingTime = 0,
                         rm_language = None, rm_channels = None\<rparr>\<rparr>"
    by (simp add: the_job_eq bob_promise_good)
  have c: "status ?d = Completed" by simp
  note T2 = conjunct2[OF T, rule_format]
  from T2[OF conjI[OF j conjI[OF p conjI[OF s c]]]]
  have b: "transcription ?d = ''hello world'' \<and> confidence ?d = 98 / 100"
    by simp
  from run_uploaded r a b j show ?thesis
    by (simp add: w_spoken_record bob_doc_fields)
qed

text \<open>
  Every pending task belongs to a record whose creation an earlier upload reported
  with status 201.
\<close>

lemma pending_update:
  "updateTranscription now w req_user idp body = (resp, w') \<Longrightarrow> pending w' = pending w"
  by (erule update_cases) simp_all

lemma pending_delete:
  "deleteTranscription w req_user idp body = (resp, w') \<Longrightarrow> pending w' = pending w"
  by (erule delete_cases) simp_all

lemma pending_deleteAccount:
  "deleteAccount w req_user body = (resp, w') \<Longrightarrow> pending w' = pending w"
  by (erule deleteAccount_cases) simp_all

lemma pending_settle: "set (pending (settle now w j dg)) \<subseteq> set (pending w)"
  by (auto simp: settle_def on_fulfilled_def on_rejected_def save_existing_def Let_def
        split: sum.splits option.splits if_splits)

lemma run_pending_created:
  "run tr w \<Longrightarrow> \<forall>j \<in> set (pending w). Some (doc_id (job_doc j)) \<in> accepted_id ` set tr"
proof (induction rule: run.induct)
  case (start key)
  show ?case by (simp add: initial_def)
next
  case (users tr w us)
  then show ?case by simp
next
  case (stored tr w p content)
  then show ?case by simp
next
  case (upload tr w now req resp w')
  from upload(2) show ?case
  proof (cases rule: upload_cases)
    case unchanged
    with upload.IH show ?thesis by auto
  next
    case (cleaned fs)
    with upload.IH show ?thesis by auto
  next
    case (accepted fl ttl src u audio d j)
    have "doc_id d = next_id w" by (simp add: accepted(6) new_transcription_def)
    then have "accepted_id (EvUpload resp) = Some (doc_id (job_doc j))"
      by (simp add: accepted(8,9) respond_def)
    with upload.IH show ?thesis
      by (auto simp: accepted(10) image_iff) 
  qed
next
  case (settled tr w j now dg)
  with pending_settle[of now w j dg] show ?case by auto
next
  case (update tr w now req_user idp body resp w')
  with pending_update[OF update(2)] show ?case by auto
next
  case (delete tr w req_user idp body resp w')
  with pending_delete[OF delete(2)] show ?case by auto
next
  case (delete_account tr w req_user body resp w')
  with pending_deleteAccount[OF delete_account(2)] show ?case by auto
qed

lemma snoc_eq_split:
  assumes "tr @ [e] = pre @ x # post"
  shows "(post = [] \<and> tr = pre \<and> e = x) \<or> (\<exists>post'. post = post' @ [e] \<and> tr = pre @ x # post')"
proof (cases post rule: rev_cases)
  case Nil
  with assms show ?thesis by simp
next
  case (snoc post' y)
  with assms have "tr @ [e] = (pre @ x # post') @ [y]" by simp
  then have "tr = pre @ x # post'" "e = y" by simp_all
  with snoc show ?thesis by simp
qed

lemma run_settled_after_created:
  "run tr w \<Longrightarrow> tr = pre @ EvSettled i # post \<Longrightarrow> Some i \<in> accepted_id ` set pre"
proof (induction arbitrary: post rule: run.induct)
  case (start key)
  then show ?case by simp
next
  case (users tr w us)
  from snoc_eq_split[OF users(3)] users.IH show ?case by auto
next
  case (stored tr w p content)
  from snoc_eq_split[OF stored(3)] stored.IH show ?case by auto
next
  case (upload tr w now req resp w')
  from snoc_eq_split[OF upload(4)] upload.IH show ?case by auto
next
  case (settled tr w j now dg)
  from snoc_eq_split[OF settled(4)] show ?case
  proof
    assume "post = [] \<and> tr = pre \<and> EvSettled (doc_id (job_doc j)) = EvSettled i"
    with run_pending_created[OF settled(1)] settled(2) show ?thesis by auto
  next
    assume "\<exists>post'. post = post' @ [EvSettled (doc_id (job_doc j))] \<and> tr = pre @ EvSettled i # post'"
    with settled.IH show ?thesis by auto
  qed
next
  case (update tr w now req_user idp body resp w')
  from snoc_eq_split[OF update(4)] update.IH show ?case by auto
next
  case (delete tr w req_user idp body resp w')
  from snoc_eq_split[OF delete(4)] delete.IH show ?case by auto
next
  case (delete_account tr w req_user body resp w')
  from snoc_eq_split[OF delete_account(4)] delete_account.IH show ?case by auto
qed

text \<open>
  What the first \<^verbatim>\<open>save()\<close> requires of a new document, in terms of the request.
\<close>

lemma validateSync_new_iff:
  "validateSync (new_transcription oid now u ttl src fl audio dur) \<longleftrightarrow>
     trim (user_username u) \<noteq> [] \<and> trim (user_email u) \<noteq> [] \<and> trim ttl \<noteq> [] \<and>
     length (trim ttl) \<le> 200 \<and> originalname fl \<noteq> [] \<and> f_path fl \<noteq> [] \<and> audio \<noteq> [] \<and>
     mimetype fl \<noteq> []"
  by (simp add: validateSync_def new_transcription_def toLowerCase_def)

text \<open>
  The upload handler answers 201 exactly when the request has a file that passes
  \<open>validateAudioFile\<close>, its body passes the schema, the user exists, the uploaded
  file can be read, and the new document passes the validation of \<^verbatim>\<open>save()\<close>.
\<close>

lemma upload_accepted_iff:
  "statusCode (fst (uploadAndTranscribe now w req)) = 201 \<longleftrightarrow>
     (\<exists>fl ttl src u audio.
        up_file req = Some fl \<and> valid (validateAudioFile (Some fl)) \<and>
        createTranscriptionSchema (up_body req) = Some (ttl, src) \<and>
        findById (users w) (p_userId (up_user req)) = Some u \<and>
        files w (f_path fl) = Some audio \<and>
        validateSync (new_transcription (next_id w) now u ttl src fl audio
                        (getAudioDuration (files w) (f_path fl))))"
proof
  assume c: "statusCode (fst (uploadAndTranscribe now w req)) = 201"
  obtain resp w1 where eq: "uploadAndTranscribe now w req = (resp, w1)"
    by (cases "uploadAndTranscribe now w req")
  from eq show "\<exists>fl ttl src u audio.
        up_file req = Some fl \<and> valid (validateAudioFile (Some fl)) \<and>
        createTranscriptionSchema (up_body req) = Some (ttl, src) \<and>
        findById (users w) (p_userId (up_user req)) = Some u \<and>
        files w (f_path fl) = Some audio \<and>
        validateSync (new_transcription (next_id w) now u ttl src fl audio
                        (getAudioDuration (files w) (f_path fl)))"
  proof (cases rule: upload_cases)
    case unchanged
    with c eq show ?thesis by simp
  next
    case (cleaned fs)
    with c eq show ?thesis by simp
  next
    case (accepted fl ttl src u audio d j)
    then show ?thesis by blast
  qed
next
  assume "\<exists>fl ttl src u audio.
        up_file req = Some fl \<and> valid (validateAudioFile (Some fl)) \<and>
        createTranscriptionSchema (up_body req) = Some (ttl, src) \<and>
        findById (users w) (p_userId (up_user req)) = Some u \<and>
        files w (f_path fl) = Some audio \<and>
        validateSync (new_transcription (next_id w) now u ttl src fl audio
                        (getAudioDuration (files w) (f_path fl)))"
  then obtain fl ttl src u audio where
    a: "up_file req = Some fl" "valid (validateAudioFile (Some fl))"
       "createTranscriptionSchema (up_body req) = Some (ttl, src)"
       "findById (users w) (p_userId (up_user req)) = Some u"
       "files w (f_path fl) = Some audio"
       "validateSync (new_transcription (next_id w) now u ttl src fl audio
                        (getAudioDuration (files w) (f_path fl)))"
    by blast
  from upload_accept[OF a(1-5) refl a(6) refl]
  show "statusCode (fst (uploadAndTranscribe now w req)) = 201"
    by (simp add: respond_def)
qed

text \<open>
  C3.  When the upload handler answers 201, it has stored a new record in state
  \<open>processing\<close> under a fresh id, its answer names that id and reports
  \<open>processing\<close>, and the task of the provider call is still pending when it returns:
  the handler does not depend on the provider's answer.  In every run, the settling of
  a record's provider call comes after the upload that reported that record created.
\<close>

theorem upload_accepted_persists_processing:
  "(statusCode (fst (uploadAndTranscribe now w req)) = 201 \<longrightarrow>
      (\<exists>d j. uploadAndTranscribe now w req =
                (respond 201 (UploadAccepted (doc_id d) (title d) Processing (originalFilename d)
                   (fileSize d) (duration d) (createdAt d)),
                 w\<lparr>transcriptions := (transcriptions w)(doc_id d \<mapsto> d),
                   next_id := Suc (next_id w), pending := pending w @ [j]\<rparr>) \<and>
              doc_id d = next_id w \<and> status d = Processing \<and> transcription d = [] \<and>
              job_doc j = d)) \<and>
   (run (pre @ EvSettled i # post) w' \<longrightarrow> Some i \<in> accepted_id ` set pre)"
proof (intro conjI impI)
  assume c: "statusCode (fst (uploadAndTranscribe now w req)) = 201"
  obtain resp w1 where eq: "uploadAndTranscribe now w req = (resp, w1)"
    by (cases "uploadAndTranscribe now w req")
  from eq show "\<exists>d j. uploadAndTranscribe now w req =
                (respond 201 (UploadAccepted (doc_id d) (title d) Processing (originalFilename d)
                   (fileSize d) (duration d) (createdAt d)),
                 w\<lparr>transcriptions := (transcriptions w)(doc_id d \<mapsto> d),
                   next_id := Suc (next_id w), pending := pending w @ [j]\<rparr>) \<and>
              doc_id d = next_id w \<and> status d = Processing \<and> transcription d = [] \<and>
              job_doc j = d"
  proof (cases rule: upload_cases)
    case unchanged
    with c eq show ?thesis by simp
  next
    case (cleaned fs)
    with c eq show ?thesis by simp
  next
    case (accepted fl ttl src u audio d j)
    have f: "doc_id d = next_id w" "status d = Processing" "transcription d = []"
      by (simp_all add: accepted(6) new_transcription_def)
    show ?thesis
      apply (rule exI[of _ d], rule exI[of _ j])
      using eq accepted(8,9,10) f by simp
  qed
next
  assume "run (pre @ EvSettled i # post) w'"
  then show "Some i \<in> accepted_id ` set pre"
    by (rule run_settled_after_created) simp
qed

theorem upload_accepted_persists_processing_witness:
  "statusCode (fst (uploadAndTranscribe 1000 w_ready upload_req)) = 201 \<and>
   transcriptions (snd (uploadAndTranscribe 1000 w_ready upload_req)) 0 = Some bob_doc \<and>
   status bob_doc = Processing \<and>
   pending (snd (uploadAndTranscribe 1000 w_ready upload_req)) = [bob_job] \<and>
   run ([EvUsers, EvStored ''uploads/audio-1.wav'',
         EvUpload (respond 201 (UploadAccepted 0 ''New Transcription'' Processing ''clip.wav'' 4 1 1000))]
        @ EvSettled 0 # []) w_silent \<and>
   Some 0 \<in> accepted_id ` set [EvUsers, EvStored ''uploads/audio-1.wav'',
         EvUpload (respond 201 (UploadAccepted 0 ''New Transcription'' Processing ''clip.wav'' 4 1 1000))]"
proof -
  have r: "run ([EvUsers, EvStored ''uploads/audio-1.wav'',
         EvUpload (respond 201 (UploadAccepted 0 ''New Transcription'' Processing ''clip.wav'' 4 1 1000))]
        @ EvSettled 0 # []) w_silent"
    using run.settled[OF run_uploaded, of the_job 2000 silent_remote]
    by (simp add: w_silent_def the_job_eq w_uploaded_eq bob_job_def bob_doc_fields)
  have c: "statusCode (fst (uploadAndTranscribe 1000 w_ready upload_req)) = 201"
    by (simp add: upload_sample respond_def)
  from upload_accepted_persists_processing
         [of 1000 w_ready upload_req
             "[EvUsers, EvStored ''uploads/audio-1.wav'',
               EvUpload (respond 201 (UploadAccepted 0 ''New Transcription'' Processing ''clip.wav'' 4 1 1000))]"
             0 "[]" w_silent] r c
  have "Some 0 \<in> accepted_id ` set [EvUsers, EvStored ''uploads/audio-1.wav'',
         EvUpload (respond 201 (UploadAccepted 0 ''New Transcription'' Processing ''clip.wav'' 4 1 1000))]"
    by blast
  with r c show ?thesis
    by (simp add: upload_sample bob_doc_fields)
qed

text \<open>
  When the two provider calls of the upload handler are rejected: the API key is
  missing, the file cannot be read, or the provider call fails on the provider's side.
\<close>

lemma service_transcribeFile_fails:
  "isl (deepgramService_transcribeFile key dg fs p) \<longleftrightarrow>
     key = None \<or> key = Some [] \<or>
     (case fs p of None \<Rightarrow> True | Some bs \<Rightarrow> provider_failure (dg bs None))"
  by (simp add: deepgramService_transcribeFile_def getInstance_def transcribeFile_def isl_rethrow
        extract_result_fails split: option.splits)

lemma recording_fails:
  "isl (transcribeRecordingOptimized key dg fs p mime) \<longleftrightarrow>
     (case fs p of
        None \<Rightarrow> True
      | Some bs \<Rightarrow> key = None \<or> key = Some [] \<or> provider_failure (dg bs (Some mime)))"
  by (simp add: transcribeRecordingOptimized_def deepgramService_transcribeBuffer_def
        getInstance_def transcribeBuffer_def isl_rethrow extract_result_fails split: option.splits)

text \<open>
  A resolved provider call whose confidence lies outside the range of the schema
  changes nothing: both saves are rejected, the record stays as it is and the file
  stays on the disk.
\<close>

lemma settle_confidence_out_of_range:
  assumes "validateSync (job_doc j)" "job_promise j dg = Inr r"
    "\<not> (0 \<le> r_confidence r \<and> r_confidence r \<le> 1)"
  shows "settle now w j dg =
           w\<lparr>pending := filter (\<lambda>k. doc_id (job_doc k) \<noteq> doc_id (job_doc j)) (pending w)\<rparr>"
  using assms(1)
proof (cases rule: settle_cases[where now = now and w = w and j = j and dg = dg])
  case noop
  then show ?thesis by simp
next
  case (failed err stored)
  with assms(2) show ?thesis by simp
next
  case (completed r' stored)
  with assms(2,3) show ?thesis by simp
qed

text \<open>
  C4.  In every state a run reaches, when the provider call of a pending task fails
  (its promise is rejected, for whatever reason) and the task's record is still
  stored, that record was processing, is failed afterwards with nothing else changed
  but \<open>updatedAt\<close>, its audio file is no longer on the disk, and every other record
  is as before: no record is deleted.
\<close>

theorem provider_failure_marks_failed:
  assumes "run tr w" "j \<in> set (pending w)" "job_promise j dg = Inl err"
    "transcriptions w (doc_id (job_doc j)) = Some d"
  shows "status d = Processing \<and>
         transcriptions (settle now w j dg) (doc_id (job_doc j))
           = Some (d\<lparr>status := Failed, updatedAt := now\<rparr>) \<and>
         files (settle now w j dg) (fileUrl d) = None \<and>
         (\<forall>k. k \<noteq> doc_id (job_doc j) \<longrightarrow>
              transcriptions (settle now w j dg) k = transcriptions w k)"
proof -
  from run_job_ok[OF assms(1,2)] have j: "job_ok w j" .
  then have ok: "validateSync (job_doc j)" by (simp add: job_ok_def)
  from j assms(4) have d: "status d = Processing" "fileUrl d = fileUrl (job_doc j)"
    by (simp_all add: job_ok_def)
  from ok show ?thesis
  proof (cases rule: settle_cases[where now = now and w = w and j = j and dg = dg])
    case noop
    with assms(3,4) show ?thesis by simp
  next
    case (failed err' stored)
    with assms(4) d show ?thesis by (simp add: cleanupFile_removes)
  next
    case (completed r stored)
    with assms(3) show ?thesis by simp
  qed
qed

theorem provider_failure_marks_failed_witness:
  "run [EvUsers, EvStored ''uploads/audio-1.wav'',
        EvUpload (respond 201 (UploadAccepted 0 ''New Transcription'' Processing ''clip.wav'' 4 1 1000))]
     w_uploaded \<and>
   the_job \<in> set (pending w_uploaded) \<and>
   job_promise the_job down_remote = Inl ''Transcription failed: ECONNRESET'' \<and>
   transcriptions w_uploaded (doc_id (job_doc the_job)) = Some bob_doc \<and>
   status bob_doc = Processing \<and>
   transcriptions w_down 0 = Some (bob_doc\<lparr>status := Failed, updatedAt := 2000\<rparr>) \<and>
   files w_down ''uploads/audio-1.wav'' = None"
proof -
  have a: "the_job \<in> set (pending w_uploaded)"
    by (simp add: the_job_eq w_uploaded_eq)
  have b: "job_promise the_job down_remote = Inl ''Transcription failed: ECONNRESET''"
    by (simp add: the_job_eq bob_promise transcribeFile_def rethrow_def extract_result_def
          down_remote_def sample_defs)
  have c: "transcriptions w_uploaded (doc_id (job_doc the_job)) = Some bob_doc"
    by (simp add: the_job_eq w_uploaded_eq bob_job_def bob_doc_fields)
  have i: "doc_id (job_doc the_job) = 0"
    by (simp add: the_job_eq bob_job_def bob_doc_fields)
  from provider_failure_marks_failed [OF run_uploaded a b c, of 2000]
  have "status bob_doc = Processing \<and>
        transcriptions w_down 0 = Some (bob_doc\<lparr>status := Failed, updatedAt := 2000\<rparr>) \<and>
        files w_down ''uploads/audio-1.wav'' = None"
    by (simp add: w_down_def i bob_doc_fields)
  with run_uploaded a b c show ?thesis by simp
qed

subsection \<open>Accounts and tokens\<close>

lemmas login_defs = login_def login_body_def loginUserSchema_def emailSchema_def findOneByEmail_def
  isLocked_def bcrypt_compare_def saveUser_def incLoginAttempts_def resetLoginAttempts_def
  MAX_LOGIN_ATTEMPTS_def LOCK_TIME_def

text \<open>Five wrong passwords lock Ann's account until two hours after the fifth.\<close>

lemma w_locked_users:
  "users w_locked = [ann\<lparr>loginAttempts := 5, lockUntil := Some 7201000\<rparr>, bob]"
  by (simp add: w_locked_def wrong_login_def login_defs string_defs sample_defs Let_def)

text \<open>
  C8 does not hold as stated: Ann's account is locked, and a login attempt for it with
  an empty password is answered 400 by the schema validation, not 423.
\<close>

theorem locked_login_invalid_body_400:
  "map_option (isLocked 5000) (findOneByEmail (users w_locked) ''ann@example.org'') = Some True \<and>
   login email_regex ''s1'' ''s2'' 5000 w_locked (login_body []) = (respond 400 ValidationFailed, w_locked)"
  by (simp add: w_locked_users login_defs string_defs sample_defs)

text \<open>
  C8, amended.  When the body of a login request passes the login schema, its email
  finds an account, and that account is locked at the time of the request, the answer
  is 423 with the code \<^verbatim>\<open>ACCOUNT_LOCKED\<close> and the state is unchanged, whatever the
  password is.
\<close>

theorem locked_account_login_423:
  assumes "loginUserSchema zod_email body = Some (em, pw)"
    and "findOneByEmail (users w) em = Some u"
    and "isLocked now u"
  shows "login zod_email JWT_SECRET JWT_REFRESH_SECRET now w body =
           (respond 423 (MessageCode ''Account temporarily locked due to too many failed attempts''
              ''ACCOUNT_LOCKED''), w)"
  using assms by (simp add: login_def)

theorem locked_account_login_423_witness:
  "loginUserSchema email_regex (login_body ''Secret#123'') = Some (''ann@example.org'', ''Secret#123'') \<and>
   findOneByEmail (users w_locked) ''ann@example.org''
     = Some (ann\<lparr>loginAttempts := 5, lockUntil := Some 7201000\<rparr>) \<and>
   bcrypt_compare ''Secret#123'' (password (ann\<lparr>loginAttempts := 5, lockUntil := Some 7201000\<rparr>)) \<and>
   isLocked 5000 (ann\<lparr>loginAttempts := 5, lockUntil := Some 7201000\<rparr>) \<and>
   login email_regex ''s1'' ''s2'' 5000 w_locked (login_body ''Secret#123'') =
     (respond 423 (MessageCode ''Account temporarily locked due to too many failed attempts''
        ''ACCOUNT_LOCKED''), w_locked)"
proof -
  have a: "loginUserSchema email_regex (login_body ''Secret#123'') = Some (''ann@example.org'', ''Secret#123'')"
    by (simp add: login_defs string_defs)
  have b: "findOneByEmail (users w_locked) ''ann@example.org''
     = Some (ann\<lparr>loginAttempts := 5, lockUntil := Some 7201000\<rparr>)"
    by (simp add: w_locked_users findOneByEmail_def ann_def)
  have c: "isLocked 5000 (ann\<lparr>loginAttempts := 5, lockUntil := Some 7201000\<rparr>)"
    by (simp add: isLocked_def)
  have d: "bcrypt_compare ''Secret#123'' (password (ann\<lparr>loginAttempts := 5, lockUntil := Some 7201000\<rparr>))"
    by (simp add: bcrypt_compare_def ann_def)
  from locked_account_login_423 [OF a b c, of "''s1''" "''s2''"] a b c d show ?thesis by simp
qed

text \<open>
  C1 does not hold of the code.  Ann logs in and receives an access
  token of token version 0; she then logs out of all devices, which raises the token
  version of her account to 1; a minute after the login the middleware still accepts
  the old token, because it never compares the token's version with the account's.
\<close>

theorem stale_token_still_accepted:
  "fst (login email_regex ''s1'' ''s2'' 1000000 w_ready (login_body ''Secret#123'')) =
     respond 200 (LoginJson ann_token
       (generateRefreshToken ''s2'' 1000000 \<lparr>rp_userId = 1, rp_tokenVersion = 0\<rparr>)
       1 ''ann'' ''ann@example.org'' 1900000) \<and>
   p_tokenVersion (claims ann_token) = Some 0 \<and>
   fst (logoutAllDevices w_logged_in ann_payload) =
     respond 200 (Message ''Logged out from all devices successfully'') \<and>
   map_option tokenVersion (findById (users w_logged_out) 1) = Some 1 \<and>
   authenticateToken ''s1'' 1060000 (Some [Plain ''Bearer'', Token ann_token]) = Next ann_payload"
proof -
  have l: "login email_regex ''s1'' ''s2'' 1000000 w_ready (login_body ''Secret#123'') =
     (respond 200 (LoginJson ann_token
       (generateRefreshToken ''s2'' 1000000 \<lparr>rp_userId = 1, rp_tokenVersion = 0\<rparr>)
       1 ''ann'' ''ann@example.org'' 1900000),
      w_ready\<lparr>users := [ann\<lparr>lastLoginAt := Some 1000000\<rparr>, bob]\<rparr>)"
    by (simp add: login_defs string_defs sample_defs ann_token_def)
  then have w: "w_logged_in = w_ready\<lparr>users := [ann\<lparr>lastLoginAt := Some 1000000\<rparr>, bob]\<rparr>"
    by (simp add: w_logged_in_def)
  have o: "logoutAllDevices w_logged_in ann_payload =
     (respond 200 (Message ''Logged out from all devices successfully''),
      w_ready\<lparr>users := [ann\<lparr>lastLoginAt := Some 1000000, tokenVersion := 1\<rparr>, bob]\<rparr>)"
    by (simp add: w logoutAllDevices_def findById_def saveUser_def incrementTokenVersion_def
          ann_def bob_def ann_payload_def)
  have v: "map_option tokenVersion (findById (users w_logged_out) 1) = Some 1"
    by (simp add: w_logged_out_def o findById_def ann_def)
  have t: "p_tokenVersion (claims ann_token) = Some 0"
    by (simp add: ann_token_def generateAccessToken_def jwt_sign_def ann_payload_def)
  have a: "authenticateToken ''s1'' 1060000 (Some [Plain ''Bearer'', Token ann_token]) = Next ann_payload"
    by (simp add: authenticateToken_def bearer_def isTokenExpired_def verifyAccessToken_def
          jwt_verify_def ann_token_def generateAccessToken_def jwt_sign_def seconds_def)
  from l o v t a show ?thesis by simp
qed

subsection \<open>The per-record handlers\<close>

text \<open>
  C9 does not hold as stated: an update of the title also moves \<open>updatedAt\<close> of the
  record.
\<close>

theorem update_moves_updatedAt:
  "map_option updatedAt (transcriptions w_uploaded 0) = Some 1000 \<and>
   map_option updatedAt
     (transcriptions (snd (updateTranscription 3000 w_uploaded bob_payload (Oid 0)
                             [''title'' \<mapsto> JString ''Memo''])) 0) = Some 3000 \<and>
   map_option title
     (transcriptions (snd (updateTranscription 3000 w_uploaded bob_payload (Oid 0)
                             [''title'' \<mapsto> JString ''Memo''])) 0) = Some ''Memo''"
  by (simp add: w_uploaded_eq updateTranscription_def updateTranscriptionSchema_def findOne_def
        bob_doc_fields bob_payload_def Let_def trim_def isSpace_def)
     (simp add: bob_doc_def new_transcription_def)

text \<open>
  C9, amended.  Whatever the update handler is called with, every stored record keeps
  its \<open>originalFilename\<close>, \<open>mimeType\<close>, \<open>fileSize\<close>, \<open>userId\<close>, \<open>username\<close> and
  \<open>email\<close>; it agrees with the record before the call on every path except \<open>title\<close>
  and \<open>updatedAt\<close>; no record appears or disappears; and the users, the disk and
  the pending tasks are as before.
\<close>

theorem update_frame:
  assumes "updateTranscription now w req_user idp body = (resp, w')"
  shows "(\<forall>i. case transcriptions w i of
               None \<Rightarrow> transcriptions w' i = None
             | Some d \<Rightarrow> (\<exists>d'. transcriptions w' i = Some d' \<and> same_but_title d d' \<and>
                  originalFilename d' = originalFilename d \<and> mimeType d' = mimeType d \<and>
                  fileSize d' = fileSize d \<and> userId d' = userId d \<and>
                  username d' = username d \<and> email d' = email d)) \<and>
         users w' = users w \<and> files w' = files w \<and> pending w' = pending w \<and>
         next_id w' = next_id w"
  using assms
proof (cases rule: update_cases)
  case unchanged
  then show ?thesis by (simp add: same_but_title_def split: option.splits)
next
  case (updated i t data t')
  have t': "same_but_title t t'" "originalFilename t' = originalFilename t"
    "mimeType t' = mimeType t" "fileSize t' = fileSize t" "userId t' = userId t"
    "username t' = username t" "email t' = email t"
    by (simp_all add: updated(5) same_but_title_def split: option.splits)
  have "case transcriptions w k of
               None \<Rightarrow> transcriptions w' k = None
             | Some d \<Rightarrow> (\<exists>d'. transcriptions w' k = Some d' \<and> same_but_title d d' \<and>
                  originalFilename d' = originalFilename d \<and> mimeType d' = mimeType d \<and>
                  fileSize d' = fileSize d \<and> userId d' = userId d \<and>
                  username d' = username d \<and> email d' = email d)" for k
  proof (cases "k = i")
    case True
    with updated(3,7) t' show ?thesis by simp
  next
    case False
    with updated(7) show ?thesis by (simp add: same_but_title_def split: option.splits)
  qed
  with updated(7) show ?thesis by simp
qed

theorem update_frame_witness:
  "transcriptions w_uploaded 0 = Some bob_doc \<and>
   map_option originalFilename
     (transcriptions (snd (updateTranscription 3000 w_uploaded bob_payload (Oid 0)
                             [''title'' \<mapsto> JString ''Memo'', ''fileSize'' \<mapsto> JOther,
                              ''userId'' \<mapsto> JString ''1''])) 0) = Some ''clip.wav'' \<and>
   map_option fileSize
     (transcriptions (snd (updateTranscription 3000 w_uploaded bob_payload (Oid 0)
                             [''title'' \<mapsto> JString ''Memo'', ''fileSize'' \<mapsto> JOther,
                              ''userId'' \<mapsto> JString ''1''])) 0) = Some 4 \<and>
   map_option userId
     (transcriptions (snd (updateTranscription 3000 w_uploaded bob_payload (Oid 0)
                             [''title'' \<mapsto> JString ''Memo'', ''fileSize'' \<mapsto> JOther,
                              ''userId'' \<mapsto> JString ''1''])) 0) = Some 2"
proof -
  let ?b = "[''title'' \<mapsto> JString ''Memo'', ''fileSize'' \<mapsto> JOther, ''userId'' \<mapsto> JString ''1'']"
  obtain resp w' where u: "updateTranscription 3000 w_uploaded bob_payload (Oid 0) ?b = (resp, w')"
    by (cases "updateTranscription 3000 w_uploaded bob_payload (Oid 0) ?b")
  have r: "transcriptions w_uploaded 0 = Some bob_doc" by (simp add: w_uploaded_eq)
  from update_frame [OF u] have "case transcriptions w_uploaded 0 of
               None \<Rightarrow> transcriptions w' 0 = None
             | Some d \<Rightarrow> (\<exists>d'. transcriptions w' 0 = Some d' \<and> same_but_title d d' \<and>
                  originalFilename d' = originalFilename d \<and> mimeType d' = mimeType d \<and>
                  fileSize d' = fileSize d \<and> userId d' = userId d \<and>
                  username d' = username d \<and> email d' = email d)"
    by blast
  with r obtain d' where "transcriptions w' 0 = Some d'" "originalFilename d' = originalFilename bob_doc"
    "fileSize d' = fileSize bob_doc" "userId d' = userId bob_doc"
    by auto
  with r u show ?thesis
    by (simp add: bob_doc_def new_transcription_def clip_def bob_def)
qed

text \<open>
  C10 does not hold as stated: Ann asks to delete Bob's record with a wrong password
  and is answered 401, not 404.
\<close>

theorem foreign_delete_wrong_password_401:
  "map_option userId (transcriptions w_uploaded 0) = Some 2 \<and> p_userId ann_payload = 1 \<and>
   deleteTranscription w_uploaded ann_payload (Oid 0) [''password'' \<mapsto> JString ''guess''] =
     (respond 401 (Message ''Invalid password. Deletion cancelled.''), w_uploaded)"
  by (simp add: w_uploaded_eq bob_doc_fields deleteTranscription_def findById_def bcrypt_compare_def
        sample_defs Let_def)

text \<open>
  C10, amended.  For a record owned by another user than the caller, each per-record
  handler called with the record's id leaves the whole state unchanged.  Get and
  download answer 404; update answers 404 when the body passes its schema and 400
  otherwise; delete answers 404 when the body has a non-empty password that matches
  the caller's account.
\<close>

theorem foreign_record_untouched:
  assumes "transcriptions w i = Some d" and "userId d \<noteq> p_userId req_user"
  shows "getTranscription w req_user (Oid i) = (respond 404 (Message ''Transcription not found''), w) \<and>
         downloadTranscription w req_user (Oid i) fmt
           = (respond 404 (Message ''Transcription not found''), w) \<and>
         updateTranscription now w req_user (Oid i) body
           = (if updateTranscriptionSchema body = None then respond 400 ValidationFailed
              else respond 404 (Message ''Transcription not found''), w) \<and>
         snd (deleteTranscription w req_user (Oid i) dbody) = w \<and>
         ((\<exists>p u. dbody ''password'' = Some (JString p) \<and> p \<noteq> [] \<and>
                 findById (users w) (p_userId req_user) = Some u \<and> bcrypt_compare p (password u)) \<longrightarrow>
          deleteTranscription w req_user (Oid i) dbody
            = (respond 404 (Message ''Transcription not found''), w))"
proof -
  from assms have f: "findOne (transcriptions w) i (p_userId req_user) = None"
    by (simp add: findOne_def)
  have g: "getTranscription w req_user (Oid i) = (respond 404 (Message ''Transcription not found''), w)"
    by (simp add: getTranscription_def f)
  have dl: "downloadTranscription w req_user (Oid i) fmt
           = (respond 404 (Message ''Transcription not found''), w)"
    by (simp add: downloadTranscription_def f Let_def)
  have u: "updateTranscription now w req_user (Oid i) body
           = (if updateTranscriptionSchema body = None then respond 400 ValidationFailed
              else respond 404 (Message ''Transcription not found''), w)"
    by (simp add: updateTranscription_def f split: option.splits)
  obtain resp w' where e: "deleteTranscription w req_user (Oid i) dbody = (resp, w')"
    by (cases "deleteTranscription w req_user (Oid i) dbody")
  from e have s: "w' = w"
  proof (cases rule: delete_cases)
    case unchanged
    then show ?thesis by simp
  next
    case (deleted k t u p)
    with assms show ?thesis by simp
  qed
  have x: "deleteTranscription w req_user (Oid i) dbody
            = (respond 404 (Message ''Transcription not found''), w)"
    if "\<exists>p u. dbody ''password'' = Some (JString p) \<and> p \<noteq> [] \<and>
                 findById (users w) (p_userId req_user) = Some u \<and> bcrypt_compare p (password u)"
    using that by (auto simp: deleteTranscription_def f Let_def)
  from g dl u e s x show ?thesis by simp
qed

theorem foreign_record_untouched_witness:
  "transcriptions w_uploaded 0 = Some bob_doc \<and> userId bob_doc = 2 \<and> p_userId ann_payload = 1 \<and>
   getTranscription w_uploaded ann_payload (Oid 0)
     = (respond 404 (Message ''Transcription not found''), w_uploaded) \<and>
   downloadTranscription w_uploaded ann_payload (Oid 0) None
     = (respond 404 (Message ''Transcription not found''), w_uploaded) \<and>
   updateTranscription 3000 w_uploaded ann_payload (Oid 0) [''title'' \<mapsto> JString ''Mine'']
     = (respond 404 (Message ''Transcription not found''), w_uploaded) \<and>
   deleteTranscription w_uploaded ann_payload (Oid 0) [''password'' \<mapsto> JString ''Secret#123'']
     = (respond 404 (Message ''Transcription not found''), w_uploaded)"
proof -
  have a: "transcriptions w_uploaded 0 = Some bob_doc" by (simp add: w_uploaded_eq)
  have b: "userId bob_doc \<noteq> p_userId ann_payload" by (simp add: bob_doc_fields ann_payload_def)
  have c: "\<exists>p u. [''password'' \<mapsto> JString ''Secret#123''] ''password'' = Some (JString p) \<and> p \<noteq> [] \<and>
                 findById (users w_uploaded) (p_userId ann_payload) = Some u \<and>
                 bcrypt_compare p (password u)"
    by (simp add: w_uploaded_eq findById_def bcrypt_compare_def sample_defs)
  have s: "updateTranscriptionSchema [''title'' \<mapsto> JString ''Mine''] \<noteq> None"
    by (simp add: updateTranscriptionSchema_def)
  from foreign_record_untouched [OF a b, of None 3000 "[''title'' \<mapsto> JString ''Mine'']"
         "[''password'' \<mapsto> JString ''Secret#123'']"] a b c s
  show ?thesis by (simp add: bob_doc_fields ann_payload_def)
qed

end
